theory Spec2Isabelle
  imports Main "HOL-Library.Char_ord" "HOL-Library.List_Lexorder" "HOL-Library.Multiset"
begin

section \<open>Text\<close>

text \<open>
  JavaScript strings are modelled as \<^typ>\<open>string\<close>: a character is one code unit in the
  range U+0000 to U+00FF. The helpers below are the string methods the controllers and
  the validators call, restricted to that range.
\<close>

definition is_space :: "char \<Rightarrow> bool" where
  \<comment> \<open>the code units below U+0100 that the regular expression class \<open>\s\<close> and
      \<open>String.prototype.trim\<close> treat as white space\<close>
  "is_space c = (c \<in> set [CHR 0x09, CHR 0x0A, CHR 0x0B, CHR 0x0C, CHR 0x0D, CHR '' '', CHR 0xA0])"

definition trim :: "string \<Rightarrow> string" where
  "trim s = rev (dropWhile is_space (rev (dropWhile is_space s)))"

definition lower_char :: "char \<Rightarrow> char" where
  "lower_char c =
     (let n = (of_char c :: nat)
      in if (65 \<le> n \<and> n \<le> 90) \<or> (192 \<le> n \<and> n \<le> 222 \<and> n \<noteq> 215)
         then char_of (n + 32) else c)"

definition toLowerCase :: "string \<Rightarrow> string" where
  "toLowerCase s = map lower_char s"

definition startsWith :: "string \<Rightarrow> string \<Rightarrow> bool" where
  \<comment> \<open>\<open>s.startsWith(p)\<close>\<close>
  "startsWith s p = (take (length p) s = p)"

fun includes_str :: "string \<Rightarrow> string \<Rightarrow> bool" where
  \<comment> \<open>\<open>s.includes(t)\<close>: \<open>t\<close> occurs in \<open>s\<close> as a contiguous substring\<close>
  "includes_str [] t = (t = [])"
| "includes_str (c # cs) t = (startsWith (c # cs) t \<or> includes_str cs t)"

fun split :: "char \<Rightarrow> string \<Rightarrow> string list" where
  \<comment> \<open>\<open>s.split(sep)\<close> for a one-character separator; the result is never empty\<close>
  "split sep [] = [[]]"
| "split sep (c # cs) =
     (if c = sep then [] # split sep cs
      else (case split sep cs of [] \<Rightarrow> [[c]] | l # ls \<Rightarrow> (c # l) # ls))"

fun join :: "char \<Rightarrow> string list \<Rightarrow> string" where
  \<comment> \<open>\<open>lines.join(sep)\<close>\<close>
  "join sep [] = []"
| "join sep [l] = l"
| "join sep (l # k # ls) = l @ sep # join sep (k # ls)"

definition js_or :: "string option \<Rightarrow> string \<Rightarrow> string" where
  \<comment> \<open>\<open>v || d\<close> for a value that is a string or \<open>undefined\<close>: the empty string is falsy\<close>
  "js_or v d = (case v of None \<Rightarrow> d | Some s \<Rightarrow> if s = [] then d else s)"

definition truthy :: "string option \<Rightarrow> bool" where
  \<comment> \<open>\<open>if (v)\<close> for a value that is a string or \<open>undefined\<close>\<close>
  "truthy v = (case v of None \<Rightarrow> False | Some s \<Rightarrow> s \<noteq> [])"

definition is_digit :: "char \<Rightarrow> bool" where
  "is_digit c = (CHR ''0'' \<le> c \<and> c \<le> CHR ''9'')"

definition hex_val :: "char \<Rightarrow> nat option" where
  "hex_val c =
     (let n = (of_char (lower_char c) :: nat)
      in if 48 \<le> n \<and> n \<le> 57 then Some (n - 48)
         else if 97 \<le> n \<and> n \<le> 102 then Some (n - 87) else None)"

definition radix_val :: "nat \<Rightarrow> char \<Rightarrow> nat option" where
  "radix_val b c = (case hex_val c of None \<Rightarrow> None | Some d \<Rightarrow> if d < b then Some d else None)"

fun digits_value :: "nat \<Rightarrow> nat \<Rightarrow> string \<Rightarrow> nat" where
  \<comment> \<open>the value of the longest prefix of digits in radix \<open>b\<close>, with accumulator\<close>
  "digits_value b acc [] = acc"
| "digits_value b acc (c # cs) =
     (case radix_val b c of None \<Rightarrow> acc | Some d \<Rightarrow> digits_value b (acc * b + d) cs)"

definition parseInt :: "string \<Rightarrow> int option" where
  \<comment> \<open>\<open>parseInt(s)\<close> without a radix argument; \<open>None\<close> is \<open>NaN\<close>\<close>
  "parseInt s =
     (let t = dropWhile is_space s;
          neg = startsWith t ''-'';
          u = (if startsWith t ''-'' \<or> startsWith t ''+'' then tl t else t);
          hex = startsWith (toLowerCase u) ''0x'';
          b = (if hex then 16 else 10);
          v = (if hex then drop 2 u else u)
      in case v of
           [] \<Rightarrow> None
         | c # cs \<Rightarrow>
             (case radix_val b c of
                None \<Rightarrow> None
              | Some d \<Rightarrow> Some ((if neg then - 1 else 1) * int (digits_value b 0 v))))"

type_synonym obj = "(string \<times> string) list"
  \<comment> \<open>a JSON object or a query-string object whose values are strings: \<open>req.body\<close>,
      \<open>req.query\<close>. \<open>map_of o k\<close> reads the property \<open>k\<close>, \<open>None\<close> being \<open>undefined\<close>.\<close>

section \<open>The store\<close>

text \<open>
  The table \<open>job_applications\<close> of \<open>schema.sql\<close> and the part of \<open>auth.users\<close> its
  foreign key refers to. A row holds the text the store returns for each column; dates
  and timestamps are compared as text, which is their order when they are written in the
  ISO form the store returns. The column \<open>applied_date\<close> has the type \<open>DATE\<close>: the store
  reads a text sent for it as a date, or refuses the statement.
\<close>

datatype pg_error = PgError string

fun pg_code :: "pg_error \<Rightarrow> string" where
  "pg_code (PgError c) = c"

record job =
  job_id :: string
  user_id :: string
  company_name :: string
  role :: string
  status :: string
  applied_date :: string
  job_notes :: string
  created_at :: string
  updated_at :: string

record database =
  job_applications :: "job list"
  auth_users :: "string list"

text \<open>
  What the server cannot choose: its own clock, the clock of the store, the identifier
  the store generates for a new row, and the store's input conversion for the type
  \<open>DATE\<close>. \<open>to_date e v\<close> is the date the store reads the text \<open>v\<close> as, written as the
  store returns it (\<open>YYYY-MM-DD\<close>), or the error with which the store refuses \<open>v\<close>.
\<close>

record env =
  js_now :: string     \<comment> \<open>\<open>new Date().toISOString()\<close>\<close>
  db_now :: string     \<comment> \<open>\<open>NOW()\<close>\<close>
  new_uuid :: string   \<comment> \<open>\<open>uuid_generate_v4()\<close>\<close>
  to_date :: "string \<Rightarrow> pg_error + string"   \<comment> \<open>the cast of a text to \<open>DATE\<close>\<close>

type_synonym fault = "pg_error option"
  \<comment> \<open>a failure of one awaited store call that the table does not explain (network,
      outage, time-out); \<open>None\<close> when the call reaches the store and is answered\<close>

definition awaited :: "fault \<Rightarrow> pg_error + 'a \<Rightarrow> pg_error + 'a" where
  "awaited f r = (case f of Some e \<Rightarrow> Inl e | None \<Rightarrow> r)"

definition eq :: "('r \<Rightarrow> string) \<Rightarrow> string \<Rightarrow> 'r list \<Rightarrow> 'r list" where
  \<comment> \<open>\<open>.eq(column, value)\<close>\<close>
  "eq col v rows = filter (\<lambda>r. col r = v) rows"

definition order_desc :: "('r \<Rightarrow> string) \<Rightarrow> 'r list \<Rightarrow> 'r list" where
  \<comment> \<open>\<open>.order(column, { ascending: false })\<close>\<close>
  "order_desc col rows = rev (sort_key col rows)"

definition range_rows :: "int \<Rightarrow> int \<Rightarrow> 'r list \<Rightarrow> pg_error + 'r list" where
  \<comment> \<open>\<open>.range(from, to)\<close>: the rows at positions \<open>from\<close> to \<open>to\<close>, both included. The
      store refuses a range that is negative or empty and, the rows being counted, one that
      starts beyond their number.\<close>
  "range_rows from to rows =
     (if 0 \<le> from \<and> from \<le> to \<and> from \<le> int (length rows)
      then Inr (take (nat (to - from + 1)) (drop (nat from) rows))
      else Inl (PgError ''PGRST103''))"

definition limit_rows :: "nat \<Rightarrow> 'r list \<Rightarrow> 'r list" where
  \<comment> \<open>\<open>.limit(n)\<close>\<close>
  "limit_rows n rows = take n rows"

definition single :: "'r list \<Rightarrow> pg_error + 'r" where
  \<comment> \<open>\<open>.single()\<close>: exactly one row, or the error \<open>PGRST116\<close>\<close>
  "single rows = (case rows of [r] \<Rightarrow> Inr r | _ \<Rightarrow> Inl (PgError ''PGRST116''))"

fun like :: "string \<Rightarrow> string \<Rightarrow> bool" where
  \<comment> \<open>SQL \<open>text LIKE pattern\<close>, the pattern first: \<open>%\<close> matches any run of characters,
      \<open>_\<close> any one character, a backslash takes the next character literally\<close>
  "like [] t = (t = [])"
| "like (p # ps) t =
     (if p = CHR ''%'' then
        like ps t \<or> (case t of [] \<Rightarrow> False | c # cs \<Rightarrow> like (p # ps) cs)
      else if p = CHR ''_'' then
        (case t of [] \<Rightarrow> False | c # cs \<Rightarrow> like ps cs)
      else if p = CHR 0x5C then
        (case ps of [] \<Rightarrow> False
         | q # qs \<Rightarrow> (case t of [] \<Rightarrow> False | c # cs \<Rightarrow> c = q \<and> like qs cs))
      else
        (case t of [] \<Rightarrow> False | c # cs \<Rightarrow> c = p \<and> like ps cs))"

definition ilike :: "string \<Rightarrow> string \<Rightarrow> bool" where
  \<comment> \<open>the filter operator \<open>ilike\<close>: \<open>*\<close> in the pattern stands for \<open>%\<close>, and letter case
      is ignored\<close>
  "ilike pattern t =
     like (toLowerCase (map (\<lambda>c. if c = CHR ''*'' then CHR ''%'' else c) pattern)) (toLowerCase t)"

definition or_search :: "string \<Rightarrow> job list \<Rightarrow> pg_error + job list" where
  \<comment> \<open>\<open>.or(`company_name.ilike.%${search}%,role.ilike.%${search}%`)\<close>. The term is pasted
      into the filter string as it is. A term with one of the characters \<open>, ( ) "\<close> changes
      how the string is split into conditions; such a request is answered here with the
      parse error.\<close>
  "or_search search rows =
     (if \<exists>c \<in> set search. c \<in> set '',()\"''
      then Inl (PgError ''PGRST100'')
      else Inr (filter (\<lambda>j. ilike (''%'' @ search @ ''%'') (company_name j)
                          \<or> ilike (''%'' @ search @ ''%'') (role j)) rows))"

definition statuses :: "string list" where
  "statuses = [''Applied'', ''Interview'', ''Rejected'', ''Offer'']"

definition columns :: "string list" where
  "columns = [''id'', ''user_id'', ''company_name'', ''role'', ''status'', ''applied_date'',
              ''notes'', ''created_at'', ''updated_at'']"


definition set_columns :: "obj \<Rightarrow> job \<Rightarrow> job" where
  \<comment> \<open>the \<open>SET\<close> clause of an update: every column named in the object takes its value\<close>
  "set_columns patch j =
     (let pick = (\<lambda>k d. case map_of patch k of Some v \<Rightarrow> v | None \<Rightarrow> d)
      in \<lparr>job_id = pick ''id'' (job_id j),
          user_id = pick ''user_id'' (user_id j),
          company_name = pick ''company_name'' (company_name j),
          role = pick ''role'' (role j),
          status = pick ''status'' (status j),
          applied_date = pick ''applied_date'' (applied_date j),
          job_notes = pick ''notes'' (job_notes j),
          created_at = pick ''created_at'' (created_at j),
          updated_at = pick ''updated_at'' (updated_at j)\<rparr>)"

definition update_where ::
  "database \<Rightarrow> env \<Rightarrow> (job \<Rightarrow> bool) \<Rightarrow> obj \<Rightarrow> pg_error + job list \<times> database" where
  \<comment> \<open>\<open>.update(patch)\<close> on the rows a filter selects, with \<open>.select()\<close>: an unknown column
      is refused; a text sent for \<open>applied_date\<close> is read as a \<open>DATE\<close>, and the statement
      is refused when it is none; the trigger \<open>update_job_applications_updated_at\<close> then
      sets \<open>updated_at\<close>; the constraints of the table are checked; the updated rows are
      returned\<close>
  "update_where db e sel patch =
     (if \<exists>k \<in> set (map fst patch). k \<notin> set columns then Inl (PgError ''PGRST204'')
      else
        (case (case map_of patch ''applied_date'' of
                 None \<Rightarrow> Inr patch
               | Some v \<Rightarrow>
                   (case to_date e v of
                      Inl err \<Rightarrow> Inl err
                    | Inr date \<Rightarrow> Inr ((''applied_date'', date) # patch))) of
           Inl err \<Rightarrow> Inl err
         | Inr typed \<Rightarrow>
             (let upd = (\<lambda>j. (set_columns typed j)\<lparr>updated_at := db_now e\<rparr>);
                  rows' = map (\<lambda>j. if sel j then upd j else j) (job_applications db);
                  touched = map upd (filter sel (job_applications db))
              in if \<exists>j \<in> set touched. status j \<notin> set statuses then Inl (PgError ''23514'')
                 else if \<exists>j \<in> set touched. user_id j \<notin> set (auth_users db)
                   then Inl (PgError ''23503'')
                 else if \<not> distinct (map job_id rows') then Inl (PgError ''23505'')
                 else Inr (touched, db\<lparr>job_applications := rows'\<rparr>))))"

definition delete_where :: "database \<Rightarrow> (job \<Rightarrow> bool) \<Rightarrow> database" where
  \<comment> \<open>\<open>.delete()\<close> on the rows a filter selects\<close>
  "delete_where db sel = db\<lparr>job_applications := filter (\<lambda>j. \<not> sel j) (job_applications db)\<rparr>"

section \<open>Errors and responses\<close>

record APIError =
  message :: string
  statusCode :: nat
  code :: string

text \<open>
  A controller either throws an \<open>APIError\<close>, which \<open>asyncHandler\<close> hands to
  \<open>globalErrorHandler\<close> and which is sent with its \<open>statusCode\<close> and \<open>code\<close>, or it sends
  a response: the pair of the HTTP status (200 for \<open>res.json\<close>) and the payload.
\<close>

record pagination =
  total :: nat
  limit :: int
  offset :: int
  hasMore :: bool

record stats =
  stats_total :: nat
  applied :: nat
  interview :: nat
  rejected :: nat
  offer :: nat

section \<open>The job controller\<close>

definition getAllJobs ::
  "database \<Rightarrow> fault \<Rightarrow> string \<Rightarrow> obj \<Rightarrow> APIError + nat \<times> job list \<times> pagination" where
  \<comment> \<open>The filters, the order and the range are parts of one request: the store filters,
      counts the matching rows (\<open>count: 'exact'\<close>), orders them and cuts the range. A limit
      or an offset that \<open>parseInt\<close> reads as \<open>NaN\<close> makes a range the store refuses.\<close>
  "getAllJobs db f userId query =
     (let status = map_of query ''status'';
          search = map_of query ''search'';
          limit = (case map_of query ''limit'' of None \<Rightarrow> Some 50 | Some s \<Rightarrow> parseInt s);
          offset = (case map_of query ''offset'' of None \<Rightarrow> Some 0 | Some s \<Rightarrow> parseInt s);
          result = awaited f
            (case (limit, offset) of
               (Some l, Some off) \<Rightarrow>
                 (let rows1 = eq user_id userId (job_applications db);
                      rows2 = (if truthy status then eq job.status (the status) rows1 else rows1)
                  in case (if truthy search then or_search (the search) rows2 else Inr rows2) of
                       Inl e \<Rightarrow> Inl e
                     | Inr matching \<Rightarrow>
                         (case range_rows off (off + l - 1) (order_desc applied_date matching) of
                            Inl e \<Rightarrow> Inl e
                          | Inr data \<Rightarrow> Inr (data, length matching, l, off)))
             | _ \<Rightarrow> Inl (PgError ''PGRST103''))
      in case result of
           Inl error \<Rightarrow>
             Inl \<lparr>message = ''Failed to fetch job applications'', statusCode = 500,
                  code = ''FETCH_ERROR''\<rparr>
         | Inr (data, count', l, off) \<Rightarrow>
             Inr (200, data,
                  \<lparr>total = count', limit = l, offset = off,
                   hasMore = (off + int (length data) < int count')\<rparr>))"

definition getJobById ::
  "database \<Rightarrow> fault \<Rightarrow> string \<Rightarrow> string \<Rightarrow> APIError + nat \<times> job" where
  "getJobById db f userId ident =
     (case awaited f (single (eq user_id userId (eq job_id ident (job_applications db)))) of
        Inl error \<Rightarrow>
          if pg_code error = ''PGRST116''
          then Inl \<lparr>message = ''Job application not found'', statusCode = 404,
                    code = ''NOT_FOUND''\<rparr>
          else Inl \<lparr>message = ''Failed to fetch job application'', statusCode = 500,
                    code = ''FETCH_ERROR''\<rparr>
      | Inr data \<Rightarrow> Inr (200, data))"



definition updateJob ::
  "database \<Rightarrow> fault \<Rightarrow> fault \<Rightarrow> env \<Rightarrow> string \<Rightarrow> string \<Rightarrow> obj
     \<Rightarrow> (APIError + nat \<times> string \<times> job) \<times> database" where
  \<comment> \<open>\<open>{ ...updates, updated_at: ... }\<close> is the object \<open>updates\<close> with \<open>updated_at\<close>
      overridden: the pair put in front is the one \<open>map_of\<close> finds. An update that fails,
      or that \<open>.single()\<close> refuses, leaves the table as it was.\<close>
  "updateJob db f1 f2 e userId ident updates =
     (case awaited f1 (single (map job_id
             (eq user_id userId (eq job_id ident (job_applications db))))) of
        Inl fetchError \<Rightarrow>
          (Inl \<lparr>message = ''Job application not found'', statusCode = 404,
                code = ''NOT_FOUND''\<rparr>, db)
      | Inr existingJob \<Rightarrow>
          (case awaited f2
                  (case update_where db e (\<lambda>j. job_id j = ident \<and> user_id j = userId)
                          ((''updated_at'', js_now e) # updates) of
                     Inl err \<Rightarrow> Inl err
                   | Inr (rows, db') \<Rightarrow>
                       (case single rows of Inl err \<Rightarrow> Inl err | Inr data \<Rightarrow> Inr (data, db'))) of
             Inl error \<Rightarrow>
               (Inl \<lparr>message = ''Failed to update job application'', statusCode = 500,
                     code = ''UPDATE_ERROR''\<rparr>, db)
           | Inr (data, db') \<Rightarrow>
               (Inr (200, ''Job application updated successfully'', data), db')))"

definition deleteJob ::
  "database \<Rightarrow> fault \<Rightarrow> fault \<Rightarrow> string \<Rightarrow> string \<Rightarrow> (APIError + nat \<times> string) \<times> database" where
  \<comment> \<open>A delete that fails leaves the table as it was.\<close>
  "deleteJob db f1 f2 userId ident =
     (case awaited f1 (single (map job_id
             (eq user_id userId (eq job_id ident (job_applications db))))) of
        Inl fetchError \<Rightarrow>
          (Inl \<lparr>message = ''Job application not found'', statusCode = 404,
                code = ''NOT_FOUND''\<rparr>, db)
      | Inr existingJob \<Rightarrow>
          (case awaited f2
                  (Inr (delete_where db (\<lambda>j. job_id j = ident \<and> user_id j = userId))) of
             Inl error \<Rightarrow>
               (Inl \<lparr>message = ''Failed to delete job application'', statusCode = 500,
                     code = ''DELETE_ERROR''\<rparr>, db)
           | Inr db' \<Rightarrow> (Inr (200, ''Job application deleted successfully''), db')))"

definition getJobStats ::
  "database \<Rightarrow> fault \<Rightarrow> fault \<Rightarrow> string \<Rightarrow> APIError + nat \<times> stats \<times> job list" where
  "getJobStats db f1 f2 userId =
     (case awaited f1 (Inr (map job.status (eq user_id userId (job_applications db)))) of
        Inl error \<Rightarrow>
          Inl \<lparr>message = ''Failed to fetch statistics'', statusCode = 500,
               code = ''STATS_ERROR''\<rparr>
      | Inr data \<Rightarrow>
          (let stats = \<lparr>stats_total = length data,
                        applied = length (filter (\<lambda>s. s = ''Applied'') data),
                        interview = length (filter (\<lambda>s. s = ''Interview'') data),
                        rejected = length (filter (\<lambda>s. s = ''Rejected'') data),
                        offer = length (filter (\<lambda>s. s = ''Offer'') data)\<rparr>
           in case awaited f2
                     (Inr (limit_rows 5 (order_desc created_at
                             (eq user_id userId (job_applications db))))) of
                Inl recentError \<Rightarrow> Inr (200, stats, [])
              | Inr recentJobs \<Rightarrow> Inr (200, stats, recentJobs)))"

section \<open>Request validation\<close>

text \<open>
  The chains of \<open>validator.js\<close>. A chain reads one field of the request; \<open>optional()\<close>
  skips the chain when the field is \<open>undefined\<close>; a field that is \<open>undefined\<close> and not
  optional is checked as the empty string; \<open>trim()\<close> writes the trimmed value back into
  the request; every validator of a chain that fails adds its message. The result is the
  list of errors that \<open>handleValidationErrors\<close> sends with status 400, or the request
  the controller then receives. \<open>isISO8601\<close> is the predicate of the validation library
  and is a parameter.
\<close>

type_synonym field_error = "string \<times> string"

definition handleValidationErrors :: "field_error list \<Rightarrow> obj \<Rightarrow> field_error list + obj" where
  "handleValidationErrors errors req = (if errors \<noteq> [] then Inl errors else Inr req)"

definition sanitize :: "(string \<Rightarrow> string) \<Rightarrow> string list \<Rightarrow> obj \<Rightarrow> obj" where
  \<comment> \<open>a sanitizer applied to the named fields that are present\<close>
  "sanitize g ks req = map (\<lambda>(k, v). if k \<in> set ks then (k, g v) else (k, v)) req"

definition field :: "obj \<Rightarrow> string \<Rightarrow> string" where
  \<comment> \<open>the value a validator sees for a field that is not optional\<close>
  "field req k = (case map_of req k of None \<Rightarrow> [] | Some v \<Rightarrow> v)"

definition failing :: "bool \<Rightarrow> string \<Rightarrow> string \<Rightarrow> field_error list" where
  \<comment> \<open>one validator of a chain: its message when the check does not hold\<close>
  "failing ok k msg = (if ok then [] else [(k, msg)])"

definition optional :: "obj \<Rightarrow> string \<Rightarrow> (string \<Rightarrow> field_error list) \<Rightarrow> field_error list" where
  "optional req k chain = (case map_of req k of None \<Rightarrow> [] | Some v \<Rightarrow> chain v)"

definition isLength :: "nat \<Rightarrow> nat \<Rightarrow> string \<Rightarrow> bool" where
  "isLength mn mx v = (mn \<le> length v \<and> length v \<le> mx)"

definition isInt :: "int option \<Rightarrow> int option \<Rightarrow> string \<Rightarrow> bool" where
  \<comment> \<open>\<open>isInt({ min, max })\<close>: an optional sign and at least one decimal digit, the
      number read within the bounds\<close>
  "isInt mn mx v =
     (let u = (if startsWith v ''-'' \<or> startsWith v ''+'' then tl v else v);
          n = (if startsWith v ''-'' then - 1 else 1) * int (digits_value 10 0 u)
      in u \<noteq> [] \<and> list_all is_digit u
         \<and> (case mn of None \<Rightarrow> True | Some a \<Rightarrow> a \<le> n)
         \<and> (case mx of None \<Rightarrow> True | Some b \<Rightarrow> n \<le> b))"


definition validateUpdateJobApplication ::
  "(string \<Rightarrow> bool) \<Rightarrow> obj \<Rightarrow> field_error list + obj" where
  "validateUpdateJobApplication isISO8601 body =
     (let req = sanitize trim [''company_name'', ''role'', ''notes''] body;
          errors =
            optional req ''company_name'' (\<lambda>v.
                failing (v \<noteq> []) ''company_name'' ''Company name cannot be empty''
              @ failing (isLength 1 200 v) ''company_name''
                  ''Company name must be between 1 and 200 characters'')
          @ optional req ''role'' (\<lambda>v.
                failing (v \<noteq> []) ''role'' ''Role cannot be empty''
              @ failing (isLength 1 200 v) ''role''
                  ''Role must be between 1 and 200 characters'')
          @ optional req ''status'' (\<lambda>v. failing (v \<in> set statuses) ''status''
              ''Status must be one of: Applied, Interview, Rejected, Offer'')
          @ optional req ''applied_date'' (\<lambda>v. failing (isISO8601 v) ''applied_date''
              ''Applied date must be a valid date (YYYY-MM-DD)'')
          @ optional req ''notes'' (\<lambda>v. failing (isLength 0 2000 v) ''notes''
              ''Notes must be less than 2000 characters'')
      in handleValidationErrors errors req)"

definition validateQueryParams :: "obj \<Rightarrow> field_error list + obj" where
  "validateQueryParams query =
     (let req = sanitize trim [''search''] query;
          errors =
            optional req ''status'' (\<lambda>v. failing (v \<in> set statuses) ''status''
              ''Status filter must be one of: Applied, Interview, Rejected, Offer'')
          @ optional req ''search'' (\<lambda>v. failing (isLength 0 100 v) ''search''
              ''Search query too long'')
          @ optional req ''limit'' (\<lambda>v. failing (isInt (Some 1) (Some 100) v) ''limit''
              ''Limit must be between 1 and 100'')
          @ optional req ''offset'' (\<lambda>v. failing (isInt (Some 0) None v) ''offset''
              ''Offset must be a non-negative integer'')
      in handleValidationErrors errors req)"

definition email_types :: "string list" where
  "email_types = [''cold'', ''followup'', ''referral'']"

definition validateEmailGeneration :: "obj \<Rightarrow> field_error list + obj" where
  "validateEmailGeneration body =
     (let req = sanitize trim [''company_name'', ''role'', ''recipient_name'', ''your_name''] body;
          errors =
            failing (field req ''type'' \<noteq> []) ''type'' ''Email type is required''
          @ failing (field req ''type'' \<in> set email_types) ''type''
              ''Type must be one of: cold, followup, referral''
          @ failing (field req ''company_name'' \<noteq> []) ''company_name'' ''Company name is required''
          @ failing (field req ''role'' \<noteq> []) ''role'' ''Role is required''
          @ failing (field req ''your_name'' \<noteq> []) ''your_name'' ''Your name is required''
      in handleValidationErrors errors req)"

section \<open>The email controller\<close>

text \<open>
  \<open>apiKey\<close> is the value of the environment variable \<open>OPENAI_API_KEY\<close>, \<open>None\<close> when
  it is not set. The client \<open>openai\<close> exists when the key is a non-empty string.
\<close>

definition isAIAvailable :: "string option \<Rightarrow> bool" where
  "isAIAvailable apiKey =
     (truthy apiKey \<and> truthy apiKey
      \<and> (case apiKey of None \<Rightarrow> False | Some k \<Rightarrow> startsWith k ''sk-''))"

definition str :: "string option \<Rightarrow> string" where
  \<comment> \<open>\<open>${v}\<close> in a template literal, for a value that is a string or \<open>undefined\<close>\<close>
  "str v = (case v of None \<Rightarrow> ''undefined'' | Some s \<Rightarrow> s)"

record email =
  subject :: string
  body :: string

record email_reply = email +
  generated_by :: string
  note_text :: "string option"

definition cold :: "string option \<Rightarrow> string option \<Rightarrow> string option \<Rightarrow> email" where
  "cold = (\<lambda>company role yourName.
     \<lparr>subject = ''Application for '' @ str role @ '' at '' @ str company,
      body = ''Dear Hiring Manager,\<newline>\<newline>''
            @ ''I hope this email finds you well. My name is '' @ str yourName
            @ '', and I am writing to express my interest in the '' @ str role
            @ '' position at '' @ str company @ ''.\<newline>\<newline>''
            @ ''I have been following '' @ str company
            @ '''s work and am particularly impressed by your innovative approach to the industry. I believe my skills and experience make me a strong candidate for this role.\<newline>\<newline>''
            @ ''I would welcome the opportunity to discuss how I can contribute to your team. Thank you for considering my application.\<newline>\<newline>''
            @ ''Best regards,\<newline>'' @ str yourName\<rparr>)"

definition followup :: "string option \<Rightarrow> string option \<Rightarrow> string option \<Rightarrow> email" where
  "followup = (\<lambda>company role yourName.
     \<lparr>subject = ''Follow-up: '' @ str role @ '' Application at '' @ str company,
      body = ''Dear Hiring Manager,\<newline>\<newline>''
            @ ''I hope you are doing well. I wanted to follow up on my application for the ''
            @ str role @ '' position at '' @ str company
            @ '' that I submitted recently.\<newline>\<newline>''
            @ ''I remain very interested in this opportunity and would appreciate any update you might have regarding my application status.\<newline>\<newline>''
            @ ''Thank you for your time and consideration.\<newline>\<newline>''
            @ ''Best regards,\<newline>'' @ str yourName\<rparr>)"

definition referral ::
  "string option \<Rightarrow> string option \<Rightarrow> string option \<Rightarrow> string option \<Rightarrow> email" where
  \<comment> \<open>the fourth parameter has the default \<open>'there'\<close>, taken when it is \<open>undefined\<close>\<close>
  "referral = (\<lambda>company role yourName recipient_name.
     (let recipientName = (case recipient_name of None \<Rightarrow> ''there'' | Some r \<Rightarrow> r)
      in \<lparr>subject = ''Referral Request: '' @ str role @ '' at '' @ str company,
          body = ''Hi '' @ recipientName @ '',\<newline>\<newline>''
            @ ''I hope you're having a great day! I noticed that '' @ str company
            @ '' has an opening for a '' @ str role
            @ '' position, and I was wondering if you might be open to referring me.\<newline>\<newline>''
            @ ''I believe my background would be a good fit for this role, and I would greatly appreciate your support in the application process.\<newline>\<newline>''
            @ ''Please let me know if you need any additional information from me.\<newline>\<newline>''
            @ ''Best regards,\<newline>'' @ str yourName\<rparr>))"

definition emailTemplates ::
  "string \<Rightarrow> (string option \<Rightarrow> string option \<Rightarrow> string option \<Rightarrow> string option \<Rightarrow> email) option" where
  \<comment> \<open>\<open>emailTemplates[type]\<close>; \<open>None\<close> when the object has no template of that name\<close>
  "emailTemplates type =
     (if type = ''cold'' then Some (\<lambda>company role yourName recipientName. cold company role yourName)
      else if type = ''followup''
        then Some (\<lambda>company role yourName recipientName. followup company role yourName)
      else if type = ''referral'' then Some referral
      else None)"

definition build_prompt ::
  "string option \<Rightarrow> string option \<Rightarrow> string option \<Rightarrow> string option \<Rightarrow> string \<Rightarrow> string" where
  \<comment> \<open>the \<open>switch (type)\<close> of \<open>generateEmail\<close>; the prompt stays empty for another type\<close>
  "build_prompt = (\<lambda>type your_name role company_name recipient.
     (if type = Some ''cold'' then
            ''Write a professional cold email from '' @ str your_name
            @ '' applying for the '' @ str role @ '' position at '' @ str company_name
            @ ''. \<newline>'' @ ''Address it to \"'' @ recipient @ ''\". \<newline>''
            @ ''Keep it concise (150-200 words), professional, and engaging. \<newline>''
            @ ''Include:\<newline>'' @ ''- Brief introduction\<newline>''
            @ ''- Why they're interested in the company\<newline>''
            @ ''- Call to action\<newline>\<newline>'' @ ''Format as:\<newline>''
            @ ''Subject: [subject line]\<newline>\<newline>'' @ ''[email body]''
      else if type = Some ''followup'' then
            ''Write a professional follow-up email from '' @ str your_name
            @ '' regarding their application for the '' @ str role @ '' position at ''
            @ str company_name @ ''.\<newline>'' @ ''Address it to \"'' @ recipient
            @ ''\".\<newline>''
            @ ''Keep it polite, concise (100-150 words), and professional.\<newline>''
            @ ''Express continued interest and request an update.\<newline>\<newline>''
            @ ''Format as:\<newline>'' @ ''Subject: [subject line]\<newline>\<newline>''
            @ ''[email body]''
      else if type = Some ''referral'' then
            ''Write a professional email from '' @ str your_name
            @ '' requesting a referral for the '' @ str role @ '' position at ''
            @ str company_name @ ''.\<newline>'' @ ''Address it to \"'' @ recipient
            @ ''\" (they work at or know someone at the company).\<newline>''
            @ ''Keep it polite, concise (100-150 words), and make it easy for them to say yes.\<newline>\<newline>''
            @ ''Format as:\<newline>'' @ ''Subject: [subject line]\<newline>\<newline>''
            @ ''[email body]''
      else []))"

text \<open>
  What \<open>openai.chat.completions.create\<close> does is outside the program. The promise is
  rejected (quota, network, a refused key), or it resolves to a completion. Of a
  completion the controller reads \<open>choices[0]?.message?.content?.trim()\<close>:
  \<open>Choices cs\<close> is a completion whose \<open>choices\<close> is an array, element \<open>i\<close> carrying the
  text \<open>cs ! i\<close> as \<open>message.content\<close>, or \<open>None\<close> when the message or its content is
  missing; \<open>Malformed\<close> is any other value, on which reading the text throws.
\<close>

datatype completion = Malformed | Choices "string option list"

datatype outcome = Rejects string | Resolves completion

definition replace_subject :: "string \<Rightarrow> string" where
  \<comment> \<open>\<open>line.replace(/^subject:\s*/i, '')\<close>\<close>
  "replace_subject line =
     (if startsWith (toLowerCase line) ''subject:'' then dropWhile is_space (drop 8 line)
      else line)"

function subject_loop :: "string list \<Rightarrow> nat \<Rightarrow> string \<times> nat" where
  \<comment> \<open>the \<open>for\<close> loop of \<open>generateEmail\<close> from index \<open>i\<close>: the values of \<open>subject\<close> and
      \<open>bodyStartIndex\<close> after it\<close>
  "subject_loop lines i =
     (if i < length lines then
        (if startsWith (toLowerCase (lines ! i)) ''subject:''
         then (trim (replace_subject (lines ! i)), i + 2)
         else subject_loop lines (i + 1))
      else ([], 0))"
  by pat_completeness auto
termination
  by (relation "measure (\<lambda>(lines, i). length lines - i)") auto

declare subject_loop.simps [simp del]

definition parse_generated :: "string option \<Rightarrow> string option \<Rightarrow> string \<Rightarrow> email_reply" where
  \<comment> \<open>the part of the \<open>try\<close> block after the check of \<open>generatedContent\<close>\<close>
  "parse_generated = (\<lambda>role company_name generatedContent.
     (let lines = split CHR ''\<newline>'' generatedContent;
          (subject, bodyStartIndex) = subject_loop lines 0;
          body = trim (join CHR ''\<newline>'' (drop bodyStartIndex lines))
      in \<lparr>subject = (if subject \<noteq> [] then subject
                      else ''Application for '' @ str role @ '' at '' @ str company_name),
          body = (if body \<noteq> [] then body else generatedContent),
          generated_by = ''ai'', note_text = None\<rparr>))"

definition try_ai :: "string option \<Rightarrow> string option \<Rightarrow> outcome \<Rightarrow> string + email_reply" where
  \<comment> \<open>the \<open>try\<close> block from the awaited call on: the response it sends, or the message of
      the error that reaches \<open>catch\<close>\<close>
  "try_ai = (\<lambda>role company_name result.
     (case result of
        Rejects msg \<Rightarrow> Inl msg
      | Resolves Malformed \<Rightarrow> Inl ''TypeError''
      | Resolves (Choices cs) \<Rightarrow>
          (case (case cs of [] \<Rightarrow> None | m # _ \<Rightarrow> map_option trim m) of
             None \<Rightarrow> Inl ''Empty response from OpenAI''
           | Some generatedContent \<Rightarrow>
               if generatedContent = [] then Inl ''Empty response from OpenAI''
               else Inr (parse_generated role company_name generatedContent))))"

definition generateEmail ::
  "string option \<Rightarrow> (string \<Rightarrow> outcome) \<Rightarrow> obj \<Rightarrow> (APIError + nat \<times> email_reply) \<times> string list" where
  \<comment> \<open>The result is the response, or the error \<open>asyncHandler\<close> passes on (calling a
      template that does not exist is a \<open>TypeError\<close>, sent as 500 \<open>INTERNAL_ERROR\<close>),
      together with the prompts sent to the generative service, in order.\<close>
  "generateEmail apiKey openai req =
     (let type = map_of req ''type'';
          company_name = map_of req ''company_name'';
          role = map_of req ''role'';
          recipient_name = map_of req ''recipient_name'';
          your_name = map_of req ''your_name'';
          fallback = (\<lambda>text.
            case (case type of None \<Rightarrow> None | Some t \<Rightarrow> emailTemplates t) of
              None \<Rightarrow>
                Inl \<lparr>message = ''emailTemplates[type] is not a function'', statusCode = 500,
                     code = ''INTERNAL_ERROR''\<rparr>
            | Some f \<Rightarrow>
                (let template = f company_name role your_name recipient_name
                 in Inr (200, \<lparr>subject = subject template, body = body template,
                               generated_by = ''template'', note_text = Some text\<rparr>)))
      in if \<not> isAIAvailable apiKey then
           (fallback ''AI generation is currently unavailable. Using template instead.'', [])
         else
           (let recipient = js_or recipient_name ''Hiring Manager'';
                prompt = build_prompt type your_name role company_name recipient
            in case try_ai role company_name (openai prompt) of
                 Inr reply \<Rightarrow> (Inr (200, reply), [prompt])
               | Inl error \<Rightarrow>
                   (fallback ''AI generation encountered an error. Using template instead.'',
                    [prompt])))"

section \<open>The email service as the specification words it\<close>

text \<open>
  The outcomes of the external call that count as its failure: the call is rejected, the
  completion is malformed, or it carries no text or only white space.
\<close>

fun failed :: "outcome \<Rightarrow> bool" where
  "failed (Rejects msg) = True"
| "failed (Resolves Malformed) = True"
| "failed (Resolves (Choices [])) = True"
| "failed (Resolves (Choices (None # cs))) = True"
| "failed (Resolves (Choices (Some c # cs))) = (trim c = [])"

text \<open>
  The parser in the words of the specification: find the first line beginning with
  \<open>Subject:\<close>, in any letter case; the subject is the text after \<open>Subject:\<close> on that line;
  the body is everything after that line, skipping one separator line; an empty subject
  is replaced by the default subject, an empty body by the text itself. With no such line
  the parsed subject is empty and the whole text is the body. A separator line is a blank
  line, as in the format asked of the service: the subject line, a blank line, the body.
  A line that is not blank is not a separator and belongs to the body.
\<close>

definition is_subject_line :: "string \<Rightarrow> bool" where
  "is_subject_line line = startsWith (toLowerCase line) ''subject:''"

definition is_separator_line :: "string \<Rightarrow> bool" where
  \<comment> \<open>a blank line: empty, or white space only\<close>
  "is_separator_line line = (trim line = [])"

definition skip_separator :: "string list \<Rightarrow> string list" where
  \<comment> \<open>the lines after the subject line, without the separator line when they begin with
      one\<close>
  "skip_separator rest =
     (case rest of
        [] \<Rightarrow> []
      | line # others \<Rightarrow> if is_separator_line line then others else line # others)"

definition spec_parse_completion :: "string \<Rightarrow> string \<Rightarrow> email" where
  "spec_parse_completion default_subject text =
     (case dropWhile (\<lambda>line. \<not> is_subject_line line) (split CHR ''\<newline>'' text) of
        [] \<Rightarrow> \<lparr>subject = default_subject, body = text\<rparr>
      | line # rest \<Rightarrow>
          (let s = trim (drop (length ''subject:'') line);
               b = trim (join CHR ''\<newline>'' (skip_separator rest))
           in \<lparr>subject = (if s = [] then default_subject else s),
               body = (if b = [] then text else b)\<rparr>))"

text \<open>
  The format asked of the service, as far as the separator goes: the first subject line
  of the text, if there is one, is its last line or is followed by a separator line.
\<close>

definition separator_follows :: "string \<Rightarrow> bool" where
  "separator_follows text =
     (case dropWhile (\<lambda>line. \<not> is_subject_line line) (split CHR ''\<newline>'' text) of
        line # next_line # rest \<Rightarrow> is_separator_line next_line
      | _ \<Rightarrow> True)"

text \<open>The characters that an \<open>ilike\<close> pattern does not take literally.\<close>

definition wildcard :: "char \<Rightarrow> bool" where
  "wildcard c = (c \<in> set [CHR ''%'', CHR ''_'', CHR 0x5C, CHR ''*''])"

section \<open>Sample data\<close>

text \<open>Two users and a small table, used where a statement is run on a concrete input.\<close>

definition alice :: string where
  "alice = ''11111111-1111-4111-8111-111111111111''"

definition bob :: string where
  "bob = ''22222222-2222-4222-8222-222222222222''"

definition job1 :: job where
  "job1 = \<lparr>job_id = ''aaaaaaaa-aaaa-4aaa-8aaa-aaaaaaaaaaa1'', user_id = alice,
           company_name = ''Google'', role = ''Software Engineering Intern'',
           status = ''Applied'', applied_date = ''2024-01-15'',
           job_notes = ''Applied through university portal'',
           created_at = ''2024-01-15T09:00:00+00:00'',
           updated_at = ''2024-01-15T09:00:00+00:00''\<rparr>"

definition db1 :: database where
  "db1 = \<lparr>job_applications = [job1], auth_users = [alice, bob]\<rparr>"

text \<open>
  Dates for the sample runs. \<open>calendar_date\<close> is a store that reads the texts of the form
  \<open>YYYY-MM-DD\<close> that name a day of the calendar, each as itself, and refuses every other
  text with the error \<open>22008\<close> (date/time field value out of range). \<open>iso8601_calendar\<close>
  is the calendar form of the pattern that \<open>isISO8601\<close> tests when the option \<open>strict\<close>
  is not set: four digits, a month from 01 to 12 and a day from 01 to 31, whatever the
  month.
\<close>

definition date_shape :: "string \<Rightarrow> bool" where
  "date_shape s =
     (length s = 10 \<and> s ! 4 = CHR ''-'' \<and> s ! 7 = CHR ''-''
      \<and> list_all is_digit (take 4 s @ take 2 (drop 5 s) @ drop 8 s))"

definition leap_year :: "nat \<Rightarrow> bool" where
  "leap_year y = (y mod 4 = 0 \<and> (y mod 400 = 0 \<or> y mod 100 \<noteq> 0))"

definition days_in_month :: "nat \<Rightarrow> nat \<Rightarrow> nat" where
  "days_in_month y m =
     (if m = 2 then (if leap_year y then 29 else 28)
      else if m \<in> set [4, 6, 9, 11] then 30 else 31)"

definition calendar_date :: "string \<Rightarrow> pg_error + string" where
  "calendar_date s =
     (let y = digits_value 10 0 (take 4 s);
          m = digits_value 10 0 (take 2 (drop 5 s));
          d = digits_value 10 0 (drop 8 s)
      in if date_shape s \<and> 1 \<le> y \<and> 1 \<le> m \<and> m \<le> 12 \<and> 1 \<le> d \<and> d \<le> days_in_month y m
         then Inr s else Inl (PgError ''22008''))"


definition env1 :: env where
  "env1 = \<lparr>js_now = ''2024-02-01T12:30:00.000Z'', db_now = ''2024-02-01T12:30:00.25+00:00'',
           new_uuid = ''aaaaaaaa-aaaa-4aaa-8aaa-aaaaaaaaaaa9'', to_date = calendar_date\<rparr>"


text \<open>A larger table: \<open>alice\<close> has three records with status \<open>Applied\<close>, one
  \<open>Interview\<close>, none \<open>Rejected\<close> and one \<open>Offer\<close>; \<open>bob\<close> has one record.\<close>

definition mk_job :: "string \<Rightarrow> string \<Rightarrow> string \<Rightarrow> string \<Rightarrow> string \<Rightarrow> job" where
  "mk_job i u st ad ts =
     \<lparr>job_id = i, user_id = u, company_name = ''Acme'', role = ''Engineer'', status = st,
      applied_date = ad, job_notes = [], created_at = ts, updated_at = ts\<rparr>"

definition db2 :: database where
  "db2 = \<lparr>job_applications =
            [mk_job ''j1'' alice ''Applied'' ''2024-01-05'' ''2024-01-05T10:00:00+00:00'',
             mk_job ''j2'' bob ''Applied'' ''2024-01-06'' ''2024-01-06T10:00:00+00:00'',
             mk_job ''j3'' alice ''Interview'' ''2024-01-10'' ''2024-01-10T10:00:00+00:00'',
             mk_job ''j4'' alice ''Applied'' ''2024-01-02'' ''2024-01-11T10:00:00+00:00'',
             mk_job ''j5'' alice ''Offer'' ''2023-12-20'' ''2024-01-12T10:00:00+00:00'',
             mk_job ''j6'' alice ''Applied'' ''2024-01-15'' ''2024-01-15T10:00:00+00:00''],
          auth_users = [alice, bob]\<rparr>"

text \<open>An email request, and five behaviours of the generative service.\<close>

definition salutation_completion :: "string \<Rightarrow> outcome" where
  "salutation_completion prompt =
     Resolves (Choices [Some ''Subject: Hi\<newline>Dear Bob,\<newline>I am writing to you.''])"

definition email_req :: obj where
  "email_req = [(''type'', ''referral''), (''company_name'', ''Acme''), (''role'', ''SDE''),
                (''your_name'', ''Ann'')]"

definition quota_exceeded :: "string \<Rightarrow> outcome" where
  "quota_exceeded prompt = Rejects ''429 You exceeded your current quota''"




section \<open>Ownership: a record of another user\<close>

lemma eq_other_owner_Nil:
  assumes "\<forall>r \<in> set rows. job_id r = i \<longrightarrow> user_id r \<noteq> u"
  shows "eq user_id u (eq job_id i rows) = []"
  using assms by (auto simp: eq_def filter_empty_conv)

text \<open>
  Claim C2. Let \<open>R\<close> be a record of the table owned by \<open>A\<close>, let \<open>B\<close> be another user, and
  let \<open>j\<close> be an identifier that no record has. Identifiers are the primary key of the
  table. Whatever the store calls do (any faults), the answer to \<open>B\<close>'s get-by-id for the
  identifier of \<open>R\<close> is the answer to \<open>B\<close>'s get-by-id for \<open>j\<close>, and the same holds for
  delete. That answer is never a success; when the store answers the look-up it is the
  404 \<open>NOT_FOUND\<close> error; and the delete request leaves the table, hence \<open>R\<close>, as it was.
\<close>

theorem foreign_record_not_found:
  assumes R: "R \<in> set (job_applications db)"
      and owner: "user_id R = A"
      and other: "B \<noteq> A"
      and pk: "distinct (map job_id (job_applications db))"
      and absent: "j \<notin> set (map job_id (job_applications db))"
  shows "getJobById db f B (job_id R) = getJobById db f B j
       \<and> (\<forall>d. getJobById db f B (job_id R) \<noteq> Inr d)
       \<and> getJobById db None B (job_id R) =
           Inl \<lparr>message = ''Job application not found'', statusCode = 404, code = ''NOT_FOUND''\<rparr>
       \<and> deleteJob db f1 f2 B (job_id R) = deleteJob db f1 f2 B j
       \<and> deleteJob db f1 f2 B (job_id R) =
           (Inl \<lparr>message = ''Job application not found'', statusCode = 404, code = ''NOT_FOUND''\<rparr>, db)
       \<and> R \<in> set (job_applications (snd (deleteJob db f1 f2 B (job_id R))))"
proof -
  have uniq: "\<forall>r \<in> set (job_applications db). job_id r = job_id R \<longrightarrow> user_id r \<noteq> B"
  proof (intro ballI impI)
    fix r assume "r \<in> set (job_applications db)" and "job_id r = job_id R"
    with R pk have "r = R" by (meson distinct_map inj_onD)
    with owner other show "user_id r \<noteq> B" by simp
  qed
  have none: "\<forall>r \<in> set (job_applications db). job_id r = j \<longrightarrow> user_id r \<noteq> B"
    using absent by auto
  have e1: "eq user_id B (eq job_id (job_id R) (job_applications db)) = []"
    by (rule eq_other_owner_Nil [OF uniq])
  have e2: "eq user_id B (eq job_id j (job_applications db)) = []"
    by (rule eq_other_owner_Nil [OF none])
  have g: "getJobById db f B (job_id R) = getJobById db f B j"
    by (simp add: getJobById_def e1 e2)
  have g': "\<forall>d. getJobById db f B (job_id R) \<noteq> Inr d"
    by (cases f) (simp_all add: getJobById_def e1 awaited_def single_def)
  have g0: "getJobById db None B (job_id R) =
      Inl \<lparr>message = ''Job application not found'', statusCode = 404, code = ''NOT_FOUND''\<rparr>"
    by (simp add: getJobById_def e1 awaited_def single_def)
  have d: "deleteJob db f1 f2 B (job_id R) =
      (Inl \<lparr>message = ''Job application not found'', statusCode = 404, code = ''NOT_FOUND''\<rparr>, db)"
    by (cases f1) (simp_all add: deleteJob_def e1 awaited_def single_def)
  have d': "deleteJob db f1 f2 B j =
      (Inl \<lparr>message = ''Job application not found'', statusCode = 404, code = ''NOT_FOUND''\<rparr>, db)"
    by (cases f1) (simp_all add: deleteJob_def e2 awaited_def single_def)
  show ?thesis using g g' g0 d d' R by simp
qed

theorem foreign_record_not_found_witness:
  "job1 \<in> set (job_applications db1) \<and> user_id job1 = alice \<and> bob \<noteq> alice
   \<and> distinct (map job_id (job_applications db1))
   \<and> ''aaaaaaaa-aaaa-4aaa-8aaa-aaaaaaaaaaa2'' \<notin> set (map job_id (job_applications db1))
   \<and> getJobById db1 None bob (job_id job1)
       = getJobById db1 None bob ''aaaaaaaa-aaaa-4aaa-8aaa-aaaaaaaaaaa2''
   \<and> getJobById db1 None bob (job_id job1) =
       Inl \<lparr>message = ''Job application not found'', statusCode = 404, code = ''NOT_FOUND''\<rparr>
   \<and> deleteJob db1 None None bob (job_id job1) =
       (Inl \<lparr>message = ''Job application not found'', statusCode = 404, code = ''NOT_FOUND''\<rparr>, db1)
   \<and> getJobById db1 None alice (job_id job1) = Inr (200, job1)"
proof -
  have h1: "job1 \<in> set (job_applications db1)" by (simp add: db1_def)
  have h2: "user_id job1 = alice" by (simp add: job1_def)
  have h3: "bob \<noteq> alice" by (simp add: alice_def bob_def)
  have h4: "distinct (map job_id (job_applications db1))" by (simp add: db1_def)
  have h5: "''aaaaaaaa-aaaa-4aaa-8aaa-aaaaaaaaaaa2'' \<notin> set (map job_id (job_applications db1))"
    by (simp add: db1_def job1_def)
  have own: "getJobById db1 None alice (job_id job1) = Inr (200, job1)"
    by (simp add: getJobById_def db1_def eq_def awaited_def single_def h2)
  from foreign_record_not_found [OF h1 h2 h3 h4 h5, of None None None]
  show ?thesis using h1 h2 h3 h4 h5 own by blast
qed

section \<open>Update: the owner column\<close>

text \<open>
  Claim C1, evaluated on the code. \<open>alice\<close> owns \<open>job1\<close>. Her update request carries
  the body \<open>{ "user_id": bob }\<close>. \<open>validateUpdateJobApplication\<close> checks the five fields
  it names and passes the body on as it is; \<open>updateJob\<close> spreads the whole body into the
  update. The response is a success, and the stored record is then owned by \<open>bob\<close>.
\<close>

theorem updateJob_takes_owner_from_body:
  "validateUpdateJobApplication isISO8601 [(''user_id'', bob)] = Inr [(''user_id'', bob)]
   \<and> updateJob db1 None None env1 alice (job_id job1) [(''user_id'', bob)]
     = (Inr (200, ''Job application updated successfully'',
             job1\<lparr>user_id := bob, updated_at := db_now env1\<rparr>),
        db1\<lparr>job_applications := [job1\<lparr>user_id := bob, updated_at := db_now env1\<rparr>]\<rparr>)
   \<and> user_id job1 = alice \<and> bob \<noteq> alice"
proof -
  have v: "validateUpdateJobApplication isISO8601 [(''user_id'', bob)] = Inr [(''user_id'', bob)]"
    by (simp add: validateUpdateJobApplication_def sanitize_def optional_def
        handleValidationErrors_def)
  have u: "updateJob db1 None None env1 alice (job_id job1) [(''user_id'', bob)]
     = (Inr (200, ''Job application updated successfully'',
             job1\<lparr>user_id := bob, updated_at := db_now env1\<rparr>),
        db1\<lparr>job_applications := [job1\<lparr>user_id := bob, updated_at := db_now env1\<rparr>]\<rparr>)"
    by (simp add: updateJob_def db1_def job1_def env1_def alice_def bob_def eq_def awaited_def
        single_def update_where_def set_columns_def columns_def statuses_def Let_def)
  have o: "user_id job1 = alice" by (simp add: job1_def)
  have d: "bob \<noteq> alice" by (simp add: alice_def bob_def)
  from v u o d show ?thesis by blast
qed

text \<open>
  The owner changes only through that property: when the body has no \<open>user_id\<close>, a
  successful update leaves the owner of every record as it was.
\<close>

lemma update_where_Inr:
  assumes "update_where db e sel patch = Inr (rows, db')"
  shows "\<exists>typed. (typed = patch \<or> (\<exists>date. typed = (''applied_date'', date) # patch))
      \<and> rows = map (\<lambda>j. (set_columns typed j)\<lparr>updated_at := db_now e\<rparr>)
                 (filter sel (job_applications db))
      \<and> job_applications db' =
          map (\<lambda>j. if sel j then (set_columns typed j)\<lparr>updated_at := db_now e\<rparr> else j)
            (job_applications db)"
proof (cases "map_of patch ''applied_date''")
  case None
  with assms have
    "rows = map (\<lambda>j. (set_columns patch j)\<lparr>updated_at := db_now e\<rparr>)
                 (filter sel (job_applications db))
     \<and> job_applications db' =
          map (\<lambda>j. if sel j then (set_columns patch j)\<lparr>updated_at := db_now e\<rparr> else j)
            (job_applications db)"
    unfolding update_where_def Let_def by (auto split: if_splits)
  then show ?thesis by blast
next
  case (Some v)
  show ?thesis
  proof (cases "to_date e v")
    case (Inl err)
    with Some assms show ?thesis
      unfolding update_where_def by (simp split: if_splits)
  next
    case (Inr date)
    with Some assms have
      "rows = map (\<lambda>j. (set_columns ((''applied_date'', date) # patch) j)\<lparr>updated_at := db_now e\<rparr>)
                 (filter sel (job_applications db))
       \<and> job_applications db' =
          map (\<lambda>j. if sel j
                    then (set_columns ((''applied_date'', date) # patch) j)\<lparr>updated_at := db_now e\<rparr>
                    else j)
            (job_applications db)"
      unfolding update_where_def Let_def by (auto split: if_splits)
    then show ?thesis by blast
  qed
qed

lemma updateJob_keeps_owner:
  assumes nokey: "map_of updates ''user_id'' = None"
      and ok: "updateJob db f1 f2 e userId ident updates = (Inr (st, msg, data), db')"
  shows "user_id data = userId
       \<and> map user_id (job_applications db') = map user_id (job_applications db)"
proof -
  let ?sel = "\<lambda>j. job_id j = ident \<and> user_id j = userId"
  let ?patch = "(''updated_at'', js_now e) # updates"
  from ok obtain rows where
    u: "update_where db e ?sel ?patch = Inr (rows, db')" and s: "single rows = Inr data"
    unfolding updateJob_def awaited_def
    by (simp split: sum.splits option.splits prod.splits)
  from update_where_Inr [OF u] obtain typed where
    ty: "typed = ?patch \<or> (\<exists>date. typed = (''applied_date'', date) # ?patch)"
    and rows: "rows = map (\<lambda>j. (set_columns typed j)\<lparr>updated_at := db_now e\<rparr>)
                        (filter ?sel (job_applications db))"
    and db': "job_applications db' =
          map (\<lambda>j. if ?sel j then (set_columns typed j)\<lparr>updated_at := db_now e\<rparr> else j)
            (job_applications db)"
    by blast
  have nk: "map_of typed ''user_id'' = None" using ty nokey by auto
  have keep: "user_id ((set_columns typed j)\<lparr>updated_at := db_now e\<rparr>) = user_id j" for j
    using nk by (simp add: set_columns_def Let_def)
  from s have "data \<in> set rows" by (auto simp: single_def split: list.splits)
  with rows obtain j where "?sel j" "data = (set_columns typed j)\<lparr>updated_at := db_now e\<rparr>"
    by auto
  with keep have a: "user_id data = userId" by simp
  have b: "map user_id (job_applications db') = map user_id (job_applications db)"
    unfolding db' using keep by (induction "job_applications db") auto
  from a b show ?thesis by simp
qed

section \<open>Statistics: store errors\<close>

text \<open>
  Claim C5 as stated fails for the second query. The store answers the query for the
  statuses and fails on the query for the recent records: the response is a success with
  the counts and an empty list of recent records, not a \<open>STATS_ERROR\<close>.
\<close>

theorem getJobStats_recent_error_counterexample:
  "getJobStats db1 None (Some (PgError ''57014'')) alice
     = Inr (200, \<lparr>stats_total = 1, applied = 1, interview = 0, rejected = 0, offer = 0\<rparr>, [])"
  by (simp add: getJobStats_def db1_def job1_def alice_def eq_def awaited_def)

text \<open>
  Claim C5, amended. A store error on the query for the caller's statuses is surfaced as
  \<open>STATS_ERROR\<close> with status 500, whatever the second query would do. A store error on
  the query for the recent records is not surfaced: the response is then a success with
  status 200, the same statistics as when that query is answered, and an empty list of
  recent records.
\<close>

theorem getJobStats_store_errors:
  "getJobStats db (Some e) f2 u
     = Inl \<lparr>message = ''Failed to fetch statistics'', statusCode = 500, code = ''STATS_ERROR''\<rparr>
   \<and> (\<exists>st recent. getJobStats db None None u = Inr (200, st, recent)
                   \<and> getJobStats db None (Some e) u = Inr (200, st, []))"
  by (simp add: getJobStats_def awaited_def Let_def)

theorem getJobStats_store_errors_witness:
  "getJobStats db1 (Some (PgError ''57014'')) None alice
     = Inl \<lparr>message = ''Failed to fetch statistics'', statusCode = 500, code = ''STATS_ERROR''\<rparr>
   \<and> (\<exists>st recent. getJobStats db1 None None alice = Inr (200, st, recent)
         \<and> getJobStats db1 None (Some (PgError ''57014'')) alice = Inr (200, st, []))"
  using getJobStats_store_errors [of db1 "PgError ''57014''" None alice] by simp

section \<open>Create\<close>







section \<open>Statistics\<close>

lemma order_desc_sorted: "sorted (rev (map col (order_desc col rows)))"
  by (simp add: order_desc_def rev_map [symmetric])

lemma order_desc_mset: "mset (order_desc col rows) = mset rows"
  by (simp add: order_desc_def)

lemma order_desc_set: "set (order_desc col rows) = set rows"
  by (simp add: order_desc_def)

lemma sorted_rev_take_drop:
  assumes "sorted (rev (map col xs))"
  shows "sorted (rev (map col (take n xs)))
       \<and> (\<forall>x \<in> set (take n xs). \<forall>y \<in> set (drop n xs). col y \<le> col x)"
proof -
  have xs: "xs = take n xs @ drop n xs" by simp
  from assms have "sorted (rev (map col (drop n xs)) @ rev (map col (take n xs)))"
    by (metis xs map_append rev_append)
  then show ?thesis by (auto simp: sorted_append)
qed

text \<open>
  Claim C9. When the store answers both queries, the response has status 200; \<open>total\<close>
  is the number of the caller's records and each of the four counts is the number of the
  caller's records with that status; \<open>recent\<close> holds five of the caller's records, or all
  of them when there are fewer, newest first by \<open>created_at\<close>, and no record left out
  (\<open>older\<close>) was created after one that is listed.
\<close>

theorem getJobStats_counts_and_recent:
  "\<exists>recent older.
     getJobStats db None None u =
       Inr (200,
            \<lparr>stats_total = length (filter (\<lambda>j. user_id j = u) (job_applications db)),
             applied = length (filter (\<lambda>j. user_id j = u \<and> status j = ''Applied'') (job_applications db)),
             interview = length (filter (\<lambda>j. user_id j = u \<and> status j = ''Interview'') (job_applications db)),
             rejected = length (filter (\<lambda>j. user_id j = u \<and> status j = ''Rejected'') (job_applications db)),
             offer = length (filter (\<lambda>j. user_id j = u \<and> status j = ''Offer'') (job_applications db))\<rparr>,
            recent)
     \<and> mset (recent @ older) = mset (filter (\<lambda>j. user_id j = u) (job_applications db))
     \<and> length recent = min 5 (length (filter (\<lambda>j. user_id j = u) (job_applications db)))
     \<and> sorted (rev (map created_at recent))
     \<and> (\<forall>x \<in> set recent. \<forall>y \<in> set older. created_at y \<le> created_at x)"
proof -
  let ?mine = "filter (\<lambda>j. user_id j = u) (job_applications db)"
  let ?ord = "order_desc created_at ?mine"
  have cnt: "\<And>v. length (filter (\<lambda>s. s = v) (map status ?mine))
               = length (filter (\<lambda>j. user_id j = u \<and> status j = v) (job_applications db))"
    by (simp add: filter_map o_def conj_commute)
  have g: "getJobStats db None None u =
       Inr (200,
            \<lparr>stats_total = length ?mine,
             applied = length (filter (\<lambda>j. user_id j = u \<and> status j = ''Applied'') (job_applications db)),
             interview = length (filter (\<lambda>j. user_id j = u \<and> status j = ''Interview'') (job_applications db)),
             rejected = length (filter (\<lambda>j. user_id j = u \<and> status j = ''Rejected'') (job_applications db)),
             offer = length (filter (\<lambda>j. user_id j = u \<and> status j = ''Offer'') (job_applications db))\<rparr>,
            take 5 ?ord)"
    unfolding getJobStats_def awaited_def eq_def limit_rows_def Let_def
    by (simp add: cnt)
  have m: "mset (take 5 ?ord @ drop 5 ?ord) = mset ?mine"
    by (simp add: order_desc_mset)
  have l: "length (take 5 ?ord) = min 5 (length ?mine)"
    by (simp add: order_desc_def min.commute)
  from sorted_rev_take_drop [OF order_desc_sorted, of created_at 5 ?mine]
  have s: "sorted (rev (map created_at (take 5 ?ord)))"
    and o: "\<forall>x \<in> set (take 5 ?ord). \<forall>y \<in> set (drop 5 ?ord). created_at y \<le> created_at x"
    by blast+
  from g m l s o show ?thesis by blast
qed

theorem getJobStats_counts_and_recent_witness:
  "getJobStats db2 None None alice =
     Inr (200, \<lparr>stats_total = 5, applied = 3, interview = 1, rejected = 0, offer = 1\<rparr>,
          [mk_job ''j6'' alice ''Applied'' ''2024-01-15'' ''2024-01-15T10:00:00+00:00'',
           mk_job ''j5'' alice ''Offer'' ''2023-12-20'' ''2024-01-12T10:00:00+00:00'',
           mk_job ''j4'' alice ''Applied'' ''2024-01-02'' ''2024-01-11T10:00:00+00:00'',
           mk_job ''j3'' alice ''Interview'' ''2024-01-10'' ''2024-01-10T10:00:00+00:00'',
           mk_job ''j1'' alice ''Applied'' ''2024-01-05'' ''2024-01-05T10:00:00+00:00''])
   \<and> length (filter (\<lambda>j. user_id j = alice) (job_applications db2)) = 5
   \<and> length (filter (\<lambda>j. user_id j = alice \<and> status j = ''Applied'') (job_applications db2)) = 3
   \<and> length (filter (\<lambda>j. user_id j = alice \<and> status j = ''Rejected'') (job_applications db2)) = 0"
proof -
  have e: "getJobStats db2 None None alice =
     Inr (200, \<lparr>stats_total = 5, applied = 3, interview = 1, rejected = 0, offer = 1\<rparr>,
          [mk_job ''j6'' alice ''Applied'' ''2024-01-15'' ''2024-01-15T10:00:00+00:00'',
           mk_job ''j5'' alice ''Offer'' ''2023-12-20'' ''2024-01-12T10:00:00+00:00'',
           mk_job ''j4'' alice ''Applied'' ''2024-01-02'' ''2024-01-11T10:00:00+00:00'',
           mk_job ''j3'' alice ''Interview'' ''2024-01-10'' ''2024-01-10T10:00:00+00:00'',
           mk_job ''j1'' alice ''Applied'' ''2024-01-05'' ''2024-01-05T10:00:00+00:00''])"
    by (simp add: getJobStats_def db2_def mk_job_def alice_def bob_def eq_def awaited_def
        limit_rows_def order_desc_def Let_def)
  from getJobStats_counts_and_recent [of db2 alice] e
  show ?thesis by auto
qed

section \<open>List\<close>

text \<open>
  What a successful list response holds. The records of the page are records of the
  caller; with a status filter they have that status; the page is in descending order of
  the applied date and is no longer than the limit; after \<open>validateQueryParams\<close> the
  limit lies between 1 and 100 and the offset is not negative; and for a search term
  without a wildcard character, every record of the page contains the term in its company
  name or in its role, letter case ignored.
\<close>

lemma getAllJobs_fault:
  "getAllJobs db (Some e) userId query =
     Inl \<lparr>message = ''Failed to fetch job applications'', statusCode = 500,
          code = ''FETCH_ERROR''\<rparr>"
  unfolding getAllJobs_def Let_def awaited_def by simp

lemma getAllJobs_None:
  assumes "(case map_of query ''limit'' of None \<Rightarrow> Some 50 | Some s \<Rightarrow> parseInt s) = Some l"
      and "(case map_of query ''offset'' of None \<Rightarrow> Some 0 | Some s \<Rightarrow> parseInt s) = Some off"
      and "(if truthy (map_of query ''search'')
            then or_search (the (map_of query ''search''))
                   (if truthy (map_of query ''status'')
                    then eq status (the (map_of query ''status''))
                           (eq user_id userId (job_applications db))
                    else eq user_id userId (job_applications db))
            else Inr (if truthy (map_of query ''status'')
                      then eq status (the (map_of query ''status''))
                             (eq user_id userId (job_applications db))
                      else eq user_id userId (job_applications db))) = res"
  shows "getAllJobs db None userId query =
     (case res of
        Inl e \<Rightarrow> Inl \<lparr>message = ''Failed to fetch job applications'', statusCode = 500,
                       code = ''FETCH_ERROR''\<rparr>
      | Inr matching \<Rightarrow>
     (case range_rows off (off + l - 1) (order_desc applied_date matching) of
        Inl e \<Rightarrow> Inl \<lparr>message = ''Failed to fetch job applications'', statusCode = 500,
                       code = ''FETCH_ERROR''\<rparr>
      | Inr data \<Rightarrow>
          Inr (200, data, \<lparr>total = length matching, limit = l, offset = off,
                 hasMore = (off + int (length data) < int (length matching))\<rparr>)))"
  unfolding getAllJobs_def Let_def awaited_def assms(1) assms(2)
  using assms(3) by (simp split: sum.split)

lemma getAllJobs_NaN:
  assumes "(case map_of query ''limit'' of None \<Rightarrow> Some 50 | Some s \<Rightarrow> parseInt s) = None
         \<or> (case map_of query ''offset'' of None \<Rightarrow> Some 0 | Some s \<Rightarrow> parseInt s) = None"
  shows "getAllJobs db None userId query =
     Inl \<lparr>message = ''Failed to fetch job applications'', statusCode = 500,
          code = ''FETCH_ERROR''\<rparr>"
proof -
  let ?l = "case map_of query ''limit'' of None \<Rightarrow> Some 50 | Some s \<Rightarrow> parseInt s"
  let ?o = "case map_of query ''offset'' of None \<Rightarrow> Some 0 | Some s \<Rightarrow> parseInt s"
  show ?thesis
  proof (cases ?l)
    case None
    show ?thesis unfolding getAllJobs_def Let_def awaited_def None by simp
  next
    case (Some l)
    with assms have o: "?o = None" by simp
    show ?thesis unfolding getAllJobs_def Let_def awaited_def Some o by simp
  qed
qed

lemma or_search_Inr:
  assumes "or_search s rows = Inr m"
  shows "m = filter (\<lambda>j. ilike (''%'' @ s @ ''%'') (company_name j)
                       \<or> ilike (''%'' @ s @ ''%'') (role j)) rows"
proof (cases "\<exists>c \<in> set s. c \<in> set '',()\"''")
  case True
  then have "or_search s rows = Inl (PgError ''PGRST100'')"
    unfolding or_search_def by (simp only: if_True)
  with assms show ?thesis by simp
next
  case False
  then have "or_search s rows = Inr (filter (\<lambda>j. ilike (''%'' @ s @ ''%'') (company_name j)
                       \<or> ilike (''%'' @ s @ ''%'') (role j)) rows)"
    unfolding or_search_def by (simp only: if_False)
  with assms show ?thesis by simp
qed

lemma getAllJobs_success:
  assumes ok: "getAllJobs db f userId query = Inr (st, data, p)"
  shows "\<exists>matching.
      st = 200
    \<and> set matching \<subseteq> {j \<in> set (job_applications db). user_id j = userId}
    \<and> (\<forall>s. map_of query ''status'' = Some s \<longrightarrow> s \<noteq> [] \<longrightarrow> (\<forall>j \<in> set matching. status j = s))
    \<and> (\<forall>s. map_of query ''search'' = Some s \<longrightarrow> s \<noteq> [] \<longrightarrow>
          (\<forall>j \<in> set matching. ilike (''%'' @ s @ ''%'') (company_name j)
                               \<or> ilike (''%'' @ s @ ''%'') (role j)))
    \<and> (case map_of query ''limit'' of None \<Rightarrow> Some 50 | Some s \<Rightarrow> parseInt s) = Some (limit p)
    \<and> (case map_of query ''offset'' of None \<Rightarrow> Some 0 | Some s \<Rightarrow> parseInt s) = Some (offset p)
    \<and> 0 \<le> offset p \<and> 1 \<le> limit p
    \<and> data = take (nat (limit p)) (drop (nat (offset p)) (order_desc applied_date matching))
    \<and> total p = length matching"
proof -
  let ?l = "case map_of query ''limit'' of None \<Rightarrow> Some 50 | Some s \<Rightarrow> parseInt s"
  let ?o = "case map_of query ''offset'' of None \<Rightarrow> Some 0 | Some s \<Rightarrow> parseInt s"
  let ?rows1 = "eq user_id userId (job_applications db)"
  let ?rows2 = "if truthy (map_of query ''status'')
                then eq status (the (map_of query ''status'')) ?rows1 else ?rows1"
  let ?res = "if truthy (map_of query ''search'')
              then or_search (the (map_of query ''search'')) ?rows2 else Inr ?rows2"
  have f: "f = None" using ok by (cases f) (simp_all add: getAllJobs_fault)
  obtain l where l: "?l = Some l"
    using ok getAllJobs_NaN [where query = query and db = db and userId = userId] unfolding f by (cases ?l) auto
  obtain off where off: "?o = Some off"
    using ok getAllJobs_NaN [where query = query and db = db and userId = userId] unfolding f by (cases ?o) auto
  note u = getAllJobs_None [OF l off refl, where userId = userId and db = db]
  obtain matching where m: "?res = Inr matching"
    using ok unfolding f u by (cases ?res) simp_all
  obtain d where r: "range_rows off (off + l - 1) (order_desc applied_date matching) = Inr d"
    using ok unfolding f u m
    by (cases "range_rows off (off + l - 1) (order_desc applied_date matching)") simp_all
  from ok have st: "st = 200" and dd: "data = d"
    and pp: "p = \<lparr>total = length matching, limit = l, offset = off,
                   hasMore = (off + int (length d) < int (length matching))\<rparr>"
    unfolding f u m by (auto simp: r)
  have sub2: "set ?rows2 \<subseteq> {j \<in> set (job_applications db). user_id j = userId}"
    by (auto simp: eq_def)
  have st2: "\<forall>s. map_of query ''status'' = Some s \<longrightarrow> s \<noteq> [] \<longrightarrow> (\<forall>j \<in> set ?rows2. status j = s)"
    by (auto simp: eq_def truthy_def)
  have sub: "set matching \<subseteq> set ?rows2"
  proof (cases "truthy (map_of query ''search'')")
    case True
    with m have "or_search (the (map_of query ''search'')) ?rows2 = Inr matching"
      by (simp only: if_True)
    from or_search_Inr [OF this] obtain P where "matching = filter P ?rows2" by blast
    then show ?thesis by (simp only: filter_is_subset)
  next
    case False
    with m have "Inr ?rows2 = (Inr matching :: pg_error + job list)"
      by (simp only: if_False)
    then show ?thesis by simp
  qed
  have se: "\<forall>s. map_of query ''search'' = Some s \<longrightarrow> s \<noteq> [] \<longrightarrow>
          (\<forall>j \<in> set matching. ilike (''%'' @ s @ ''%'') (company_name j)
                               \<or> ilike (''%'' @ s @ ''%'') (role j))"
  proof (intro allI impI)
    fix s assume s: "map_of query ''search'' = Some s" "s \<noteq> []"
    then have t: "truthy (map_of query ''search'')" by (simp add: truthy_def)
    from m have "or_search (the (map_of query ''search'')) ?rows2 = Inr matching"
      unfolding if_P [OF t] .
    then have "or_search s ?rows2 = Inr matching" using s by simp
    from or_search_Inr [OF this]
    have "set matching \<subseteq> {j. ilike (''%'' @ s @ ''%'') (company_name j)
                               \<or> ilike (''%'' @ s @ ''%'') (role j)}"
      by (simp only: set_filter) blast
    then show "\<forall>j \<in> set matching. ilike (''%'' @ s @ ''%'') (company_name j)
                               \<or> ilike (''%'' @ s @ ''%'') (role j)"
      by blast
  qed
  have rr: "0 \<le> off \<and> 1 \<le> l \<and> d = take (nat l) (drop (nat off) (order_desc applied_date matching))"
    using r by (auto simp: range_rows_def split: if_splits)
  have a: "set matching \<subseteq> {j \<in> set (job_applications db). user_id j = userId}"
    using sub sub2 by blast
  have b: "\<forall>s. map_of query ''status'' = Some s \<longrightarrow> s \<noteq> [] \<longrightarrow> (\<forall>j \<in> set matching. status j = s)"
    using sub st2 by blast
  have c: "?l = Some (limit p)" "?o = Some (offset p)" "total p = length matching"
    using l off pp by simp_all
  have e: "0 \<le> offset p \<and> 1 \<le> limit p
      \<and> data = take (nat (limit p)) (drop (nat (offset p)) (order_desc applied_date matching))"
    using rr dd pp by simp
  from st a b se c e show ?thesis by blast
qed

lemma sorted_rev_sublist:
  assumes "sorted (rev (map col xs))"
  shows "sorted (rev (map col (take n (drop k xs))))"
proof -
  have "sorted (map col (rev xs))" using assms by (simp add: rev_map)
  then have "sorted (map col (rev (drop k xs)))"
    by (simp add: rev_drop sorted_map sorted_wrt_take)
  then have "sorted (map col (rev (take n (drop k xs))))"
    by (simp add: rev_take sorted_map sorted_wrt_drop)
  then show ?thesis by (simp add: rev_map)
qed

lemma getAllJobs_page:
  assumes ok: "getAllJobs db f userId query = Inr (st, data, p)"
  shows "(\<forall>j \<in> set data. j \<in> set (job_applications db) \<and> user_id j = userId)
       \<and> (\<forall>s. map_of query ''status'' = Some s \<longrightarrow> s \<noteq> [] \<longrightarrow> (\<forall>j \<in> set data. status j = s))
       \<and> sorted (rev (map applied_date data))
       \<and> int (length data) \<le> limit p"
proof -
  from getAllJobs_success [OF ok] obtain matching where
    m: "set matching \<subseteq> {j \<in> set (job_applications db). user_id j = userId}"
       "\<forall>s. map_of query ''status'' = Some s \<longrightarrow> s \<noteq> [] \<longrightarrow> (\<forall>j \<in> set matching. status j = s)"
       "1 \<le> limit p"
       "data = take (nat (limit p)) (drop (nat (offset p)) (order_desc applied_date matching))"
    by blast
  have sub: "set data \<subseteq> set matching"
  proof -
    have "set data \<subseteq> set (order_desc applied_date matching)"
      unfolding m(4) by (meson set_take_subset set_drop_subset subset_trans)
    then show ?thesis by (simp add: order_desc_def)
  qed
  have s: "sorted (rev (map applied_date data))"
    unfolding m(4) by (rule sorted_rev_sublist [OF order_desc_sorted])
  have l: "int (length data) \<le> limit p"
    unfolding m(4) using m(3) by simp
  from sub m(1) m(2) s l show ?thesis by blast
qed

lemma like_any: "like ''%'' t"
  by (induction t) simp_all

lemma like_prefix:
  assumes "\<forall>c \<in> set p. c \<noteq> CHR ''%'' \<and> c \<noteq> CHR ''_'' \<and> c \<noteq> CHR 0x5C"
  shows "like (p @ ''%'') t = startsWith t p"
  using assms
proof (induction p arbitrary: t)
  case Nil
  then show ?case using like_any [of t] by (simp add: startsWith_def)
next
  case (Cons a p)
  then show ?case by (cases t) (simp_all add: startsWith_def)
qed

lemma like_substring:
  assumes "\<forall>c \<in> set p. c \<noteq> CHR ''%'' \<and> c \<noteq> CHR ''_'' \<and> c \<noteq> CHR 0x5C"
  shows "like (CHR ''%'' # p @ ''%'') t = includes_str t p"
proof (induction t)
  case Nil
  show ?case using like_prefix [OF assms, of "[]"] by (auto simp: startsWith_def)
next
  case (Cons c cs)
  show ?case using like_prefix [OF assms, of "c # cs"] Cons by simp
qed

lemma lower_not_wildcard:
  assumes "\<not> wildcard c"
  shows "lower_char c \<noteq> CHR ''%'' \<and> lower_char c \<noteq> CHR ''_'' \<and> lower_char c \<noteq> CHR 0x5C
       \<and> lower_char c \<noteq> CHR ''*''"
proof -
  have a: "of_char (lower_char c) = (of_char c :: nat) \<or> (97 \<le> (of_char (lower_char c) :: nat))"
    by (auto simp: lower_char_def Let_def)
  have b: "(of_char c :: nat) \<noteq> 37 \<and> (of_char c :: nat) \<noteq> 95 \<and> (of_char c :: nat) \<noteq> 92
        \<and> (of_char c :: nat) \<noteq> 42"
  proof -
    have "\<And>d. ((of_char c :: nat) = of_char d) = (c = d)" by (rule of_char_eq_iff)
    from this [of "CHR ''%''"] this [of "CHR ''_''"] this [of "CHR 0x5C"] this [of "CHR ''*''"]
    show ?thesis using assms by (simp add: wildcard_def)
  qed
  have c: "\<And>d n. (of_char (lower_char c) :: nat) \<noteq> of_char d \<Longrightarrow> lower_char c \<noteq> d"
    by auto
  show ?thesis
    using a b by (intro conjI c) auto
qed

lemma ilike_substring:
  assumes "\<forall>c \<in> set s. \<not> wildcard c"
  shows "ilike (''%'' @ s @ ''%'') t = includes_str (toLowerCase t) (toLowerCase s)"
proof -
  have star: "map (\<lambda>c. if c = CHR ''*'' then CHR ''%'' else c) s = s"
    using assms by (induction s) (auto simp: wildcard_def)
  have plain: "\<forall>c \<in> set (toLowerCase s). c \<noteq> CHR ''%'' \<and> c \<noteq> CHR ''_'' \<and> c \<noteq> CHR 0x5C"
    using assms lower_not_wildcard by (auto simp: toLowerCase_def)
  have pc: "lower_char CHR ''%'' = CHR ''%''" by code_simp
  have "ilike (''%'' @ s @ ''%'') t
      = like (CHR ''%'' # toLowerCase s @ ''%'') (toLowerCase t)"
    by (simp add: ilike_def star toLowerCase_def pc)
  then show ?thesis by (simp only: like_substring [OF plain])
qed

lemma getAllJobs_search_plain:
  assumes ok: "getAllJobs db f userId query = Inr (st, data, p)"
      and s: "map_of query ''search'' = Some s" "s \<noteq> []"
      and plain: "\<forall>c \<in> set s. \<not> wildcard c"
  shows "\<forall>j \<in> set data. includes_str (toLowerCase (company_name j)) (toLowerCase s)
                       \<or> includes_str (toLowerCase (role j)) (toLowerCase s)"
proof -
  from getAllJobs_success [OF ok] obtain matching where
    m: "\<forall>s. map_of query ''search'' = Some s \<longrightarrow> s \<noteq> [] \<longrightarrow>
          (\<forall>j \<in> set matching. ilike (''%'' @ s @ ''%'') (company_name j)
                               \<or> ilike (''%'' @ s @ ''%'') (role j))"
       "data = take (nat (limit p)) (drop (nat (offset p)) (order_desc applied_date matching))"
    by blast
  have sub: "set data \<subseteq> set matching"
  proof -
    have "set data \<subseteq> set (order_desc applied_date matching)"
      unfolding m(2) by (meson set_take_subset set_drop_subset subset_trans)
    then show ?thesis by (simp add: order_desc_def)
  qed
  from m(1) s have "\<forall>j \<in> set matching. ilike (''%'' @ s @ ''%'') (company_name j)
                               \<or> ilike (''%'' @ s @ ''%'') (role j)"
    by blast
  with sub show ?thesis unfolding ilike_substring [OF plain] by blast
qed

lemma is_digit_code: "is_digit c = (48 \<le> (of_char c :: nat) \<and> (of_char c :: nat) \<le> 57)"
  by (simp add: is_digit_def less_eq_char_def)

lemma digit_lower: "is_digit c \<Longrightarrow> lower_char c = c"
  by (simp add: is_digit_code lower_char_def Let_def)

lemma digit_radix: "is_digit c \<Longrightarrow> \<exists>d. radix_val 10 c = Some d"
  by (auto simp: radix_val_def hex_val_def Let_def digit_lower is_digit_code)

lemma digit_not_space: "is_digit c \<Longrightarrow> \<not> is_space c"
  by (auto simp: is_digit_code is_space_def)

lemma digit_not_x: "is_digit c \<Longrightarrow> lower_char c \<noteq> CHR ''x''"
  by (auto simp: digit_lower is_digit_code)

lemma digits_not_hex:
  assumes "list_all is_digit u"
  shows "\<not> startsWith (toLowerCase u) ''0x''"
proof (cases u)
  case Nil
  then show ?thesis by (simp add: startsWith_def toLowerCase_def)
next
  case (Cons a u')
  show ?thesis
  proof (cases u')
    case Nil
    with Cons show ?thesis by (simp add: startsWith_def toLowerCase_def)
  next
    case (Cons b u'')
    with \<open>u = a # u'\<close> assms have "is_digit b" by simp
    from digit_not_x [OF this] Cons \<open>u = a # u'\<close> show ?thesis
      by (simp add: startsWith_def toLowerCase_def)
  qed
qed

lemma isInt_parseInt:
  assumes "isInt mn mx v"
  shows "\<exists>n. parseInt v = Some n \<and> (case mn of None \<Rightarrow> True | Some a \<Rightarrow> a \<le> n)
           \<and> (case mx of None \<Rightarrow> True | Some b \<Rightarrow> n \<le> b)"
proof -
  let ?u = "if startsWith v ''-'' \<or> startsWith v ''+'' then tl v else v"
  let ?n = "(if startsWith v ''-'' then - 1 else 1) * int (digits_value 10 0 ?u)"
  from assms have u: "?u \<noteq> []" and d: "list_all is_digit ?u"
    and lo: "case mn of None \<Rightarrow> True | Some a \<Rightarrow> a \<le> ?n"
    and hi: "case mx of None \<Rightarrow> True | Some b \<Rightarrow> ?n \<le> b"
    unfolding isInt_def Let_def by blast+
  have v: "v \<noteq> []" using u by (cases v) (auto simp: startsWith_def)
  have hd: "\<not> is_space (hd v)"
  proof (cases "startsWith v ''-'' \<or> startsWith v ''+''")
    case True
    then have "hd v = CHR ''-'' \<or> hd v = CHR ''+''"
      using v by (cases v) (auto simp: startsWith_def)
    then show ?thesis by (auto simp: is_space_def)
  next
    case False
    with d v have "is_digit (hd v)" by (cases v) auto
    then show ?thesis by (rule digit_not_space)
  qed
  have t: "dropWhile is_space v = v" using v hd by (cases v) auto
  obtain c cs where cc: "?u = c # cs" using u by (cases ?u) auto
  with d have "is_digit c" by simp
  from digit_radix [OF this] obtain dd where r: "radix_val 10 c = Some dd" by blast
  have nh: "\<not> startsWith (toLowerCase ?u) ''0x''" using d by (rule digits_not_hex)
  have "parseInt v = Some ?n"
    unfolding parseInt_def Let_def t
    using nh cc r by (simp split: list.split)
  with lo hi show ?thesis by blast
qed

lemma validated_limit_offset:
  assumes valid: "validateQueryParams raw = Inr query"
      and ok: "getAllJobs db f userId query = Inr (st, data, p)"
  shows "1 \<le> limit p \<and> limit p \<le> 100 \<and> 0 \<le> offset p"
proof -
  from getAllJobs_success [OF ok] have
    l: "(case map_of query ''limit'' of None \<Rightarrow> Some 50 | Some s \<Rightarrow> parseInt s) = Some (limit p)"
    and o: "0 \<le> offset p" and l1: "1 \<le> limit p"
    by blast+
  have "limit p \<le> 100"
  proof (cases "map_of query ''limit''")
    case None
    with l show ?thesis by simp
  next
    case (Some s)
    have "isInt (Some 1) (Some 100) s"
      using valid Some
      by (simp add: validateQueryParams_def Let_def handleValidationErrors_def optional_def
          failing_def split: if_splits option.splits)
    from isInt_parseInt [OF this] l Some show ?thesis by auto
  qed
  with o l1 show ?thesis by simp
qed

text \<open>
  Claim C10. In every successful list response, \<open>hasMore\<close> is true exactly when the
  offset plus the number of records in the page is less than the total count.
\<close>

theorem getAllJobs_hasMore:
  assumes "getAllJobs db f userId query = Inr (st, data, p)"
  shows "hasMore p = (offset p + int (length data) < int (total p))"
  using assms
  by (auto simp: getAllJobs_def Let_def split: sum.splits prod.splits)

theorem getAllJobs_hasMore_witness:
  "getAllJobs db2 None alice [(''limit'', ''2''), (''offset'', ''1'')] =
     Inr (200,
          [mk_job ''j3'' alice ''Interview'' ''2024-01-10'' ''2024-01-10T10:00:00+00:00'',
           mk_job ''j1'' alice ''Applied'' ''2024-01-05'' ''2024-01-05T10:00:00+00:00''],
          \<lparr>total = 5, limit = 2, offset = 1, hasMore = True\<rparr>)
   \<and> hasMore \<lparr>total = 5, limit = 2, offset = 1, hasMore = True\<rparr>
       = (offset \<lparr>total = 5, limit = 2, offset = 1, hasMore = True\<rparr> + int (length
           [mk_job ''j3'' alice ''Interview'' ''2024-01-10'' ''2024-01-10T10:00:00+00:00'',
            mk_job ''j1'' alice ''Applied'' ''2024-01-05'' ''2024-01-05T10:00:00+00:00''])
          < int (total \<lparr>total = 5, limit = 2, offset = 1, hasMore = True\<rparr>))"
proof -
  have e: "getAllJobs db2 None alice [(''limit'', ''2''), (''offset'', ''1'')] =
     Inr (200,
          [mk_job ''j3'' alice ''Interview'' ''2024-01-10'' ''2024-01-10T10:00:00+00:00'',
           mk_job ''j1'' alice ''Applied'' ''2024-01-05'' ''2024-01-05T10:00:00+00:00''],
          \<lparr>total = 5, limit = 2, offset = 1, hasMore = True\<rparr>)"
    by code_simp
  from getAllJobs_hasMore [OF e] e show ?thesis by blast
qed

text \<open>
  Claim C8, evaluated on the code. \<open>alice\<close> lists her records with \<open>search=g_o\<close>, which
  \<open>validateQueryParams\<close> accepts as it is. The controller pastes the term between two
  \<open>%\<close> into an \<open>ilike\<close> pattern, where \<open>_\<close> stands for any one character, so the page
  holds \<open>job1\<close> (company \<open>Google\<close>), although neither its company name nor its role
  contains the text \<open>g_o\<close>, in any letter case.
\<close>

theorem getAllJobs_search_wildcard:
  "validateQueryParams [(''search'', ''g_o'')] = Inr [(''search'', ''g_o'')]
   \<and> getAllJobs db1 None alice [(''search'', ''g_o'')]
       = Inr (200, [job1], \<lparr>total = 1, limit = 50, offset = 0, hasMore = False\<rparr>)
   \<and> \<not> includes_str (toLowerCase (company_name job1)) (toLowerCase ''g_o'')
   \<and> \<not> includes_str (toLowerCase (role job1)) (toLowerCase ''g_o'')"
  by code_simp

section \<open>Email: no credential\<close>

lemma valid_email_type:
  assumes "validateEmailGeneration raw = Inr req"
  shows "\<exists>t f. map_of req ''type'' = Some t \<and> emailTemplates t = Some f"
  using assms
  by (auto simp: validateEmailGeneration_def Let_def handleValidationErrors_def failing_def
      field_def email_types_def emailTemplates_def split: if_splits option.splits)

lemma template_nonempty:
  assumes "emailTemplates t = Some f"
  shows "subject (f c r y rn) \<noteq> [] \<and> body (f c r y rn) \<noteq> []"
  using assms
  by (auto simp: emailTemplates_def cold_def followup_def referral_def Let_def
      split: if_splits)

lemma isAIAvailable_iff:
  "isAIAvailable apiKey = (\<exists>k. apiKey = Some k \<and> startsWith k ''sk-'')"
  by (cases apiKey) (auto simp: isAIAvailable_def truthy_def startsWith_def)

text \<open>
  Claim C4. A request that \<open>validateEmailGeneration\<close> accepts, made when no usable
  credential is configured (\<open>OPENAI_API_KEY\<close> is unset or empty, or does not begin with
  \<open>sk-\<close>): the response has status 200 and carries the template of the requested type,
  filled from the request, with \<open>generated_by\<close> \<open>template\<close> and the note that generation
  is unavailable; no prompt is sent to the generative service, whatever that service
  would have answered.
\<close>

theorem generateEmail_without_credential:
  assumes valid: "validateEmailGeneration raw = Inr req"
      and unavailable: "\<not> isAIAvailable apiKey"
  shows "\<exists>t f. map_of req ''type'' = Some t \<and> emailTemplates t = Some f
         \<and> generateEmail apiKey openai req =
             (Inr (200,
                \<lparr>subject = subject (f (map_of req ''company_name'') (map_of req ''role'')
                                      (map_of req ''your_name'') (map_of req ''recipient_name'')),
                 body = body (f (map_of req ''company_name'') (map_of req ''role'')
                                (map_of req ''your_name'') (map_of req ''recipient_name'')),
                 generated_by = ''template'',
                 note_text = Some ''AI generation is currently unavailable. Using template instead.''\<rparr>),
              [])"
proof -
  from valid_email_type [OF valid] obtain t f where
    tf: "map_of req ''type'' = Some t" "emailTemplates t = Some f" by blast
  then have "generateEmail apiKey openai req =
             (Inr (200,
                \<lparr>subject = subject (f (map_of req ''company_name'') (map_of req ''role'')
                                      (map_of req ''your_name'') (map_of req ''recipient_name'')),
                 body = body (f (map_of req ''company_name'') (map_of req ''role'')
                                (map_of req ''your_name'') (map_of req ''recipient_name'')),
                 generated_by = ''template'',
                 note_text = Some ''AI generation is currently unavailable. Using template instead.''\<rparr>),
              [])"
    using unavailable by (simp add: generateEmail_def Let_def)
  with tf show ?thesis by blast
qed

theorem generateEmail_without_credential_witness:
  "validateEmailGeneration email_req = Inr email_req
   \<and> \<not> isAIAvailable None
   \<and> generateEmail None quota_exceeded email_req =
       (Inr (200,
          \<lparr>subject = ''Referral Request: SDE at Acme'',
           body = body (referral (Some ''Acme'') (Some ''SDE'') (Some ''Ann'') None),
           generated_by = ''template'',
           note_text = Some ''AI generation is currently unavailable. Using template instead.''\<rparr>),
        [])
   \<and> generateEmail (Some ''pk-live-123'') quota_exceeded email_req
       = generateEmail None quota_exceeded email_req"
proof -
  have h1: "validateEmailGeneration email_req = Inr email_req"
    by (simp add: validateEmailGeneration_def email_req_def sanitize_def failing_def field_def
        handleValidationErrors_def email_types_def trim_def is_space_def Let_def)
  have h2: "\<not> isAIAvailable None" by (simp add: isAIAvailable_iff)
  have h3: "\<not> isAIAvailable (Some ''pk-live-123'')"
    by (simp add: isAIAvailable_iff startsWith_def)
  have t: "map_of email_req ''type'' = Some ''referral''" by (simp add: email_req_def)
  have f: "emailTemplates ''referral'' = Some referral" by (simp add: emailTemplates_def)
  have v: "map_of email_req ''company_name'' = Some ''Acme''"
    "map_of email_req ''role'' = Some ''SDE''" "map_of email_req ''your_name'' = Some ''Ann''"
    "map_of email_req ''recipient_name'' = None"
    by (simp_all add: email_req_def)
  have s: "subject (referral (Some ''Acme'') (Some ''SDE'') (Some ''Ann'') None)
      = ''Referral Request: SDE at Acme''"
    by (simp add: referral_def str_def)
  from generateEmail_without_credential [OF h1 h2, of quota_exceeded] t f v s
  have a: "generateEmail None quota_exceeded email_req =
       (Inr (200,
          \<lparr>subject = ''Referral Request: SDE at Acme'',
           body = body (referral (Some ''Acme'') (Some ''SDE'') (Some ''Ann'') None),
           generated_by = ''template'',
           note_text = Some ''AI generation is currently unavailable. Using template instead.''\<rparr>),
        [])"
    by auto
  from generateEmail_without_credential [OF h1 h3, of quota_exceeded] t f v s a
  have b: "generateEmail (Some ''pk-live-123'') quota_exceeded email_req
       = generateEmail None quota_exceeded email_req"
    by auto
  from h1 h2 a b show ?thesis by blast
qed

section \<open>Email: failure of the external call\<close>

lemma try_ai_failed:
  assumes "failed result"
  shows "\<exists>msg. try_ai r c result = Inl msg"
  using assms by (cases result rule: failed.cases) (simp_all add: try_ai_def)

text \<open>
  Claim C3. A request that \<open>validateEmailGeneration\<close> accepts, made with a usable
  credential, when the external call fails on the prompt \<open>p\<close> that the controller sends
  (it is rejected, or its completion is malformed, or carries no text or only white
  space): the controller answers with status 200 and the template of the requested type,
  \<open>generated_by\<close> \<open>template\<close>, a subject and a body that are not empty, and the note that
  generation met an error. No error reaches the caller.
\<close>

theorem generateEmail_call_failure:
  assumes valid: "validateEmailGeneration raw = Inr req"
      and available: "isAIAvailable apiKey"
      and prompt: "p = build_prompt (map_of req ''type'') (map_of req ''your_name'')
                         (map_of req ''role'') (map_of req ''company_name'')
                         (js_or (map_of req ''recipient_name'') ''Hiring Manager'')"
      and fails: "failed (openai p)"
  shows "\<exists>t f reply. map_of req ''type'' = Some t \<and> emailTemplates t = Some f
         \<and> generateEmail apiKey openai req = (Inr (200, reply), [p])
         \<and> subject reply = subject (f (map_of req ''company_name'') (map_of req ''role'')
                                      (map_of req ''your_name'') (map_of req ''recipient_name''))
         \<and> body reply = body (f (map_of req ''company_name'') (map_of req ''role'')
                                (map_of req ''your_name'') (map_of req ''recipient_name''))
         \<and> generated_by reply = ''template''
         \<and> note_text reply = Some ''AI generation encountered an error. Using template instead.''
         \<and> subject reply \<noteq> [] \<and> body reply \<noteq> []"
proof -
  from valid_email_type [OF valid] obtain t f where
    tf: "map_of req ''type'' = Some t" "emailTemplates t = Some f" by blast
  from try_ai_failed [OF fails] obtain msg where
    m: "try_ai (map_of req ''role'') (map_of req ''company_name'') (openai p) = Inl msg"
    by blast
  let ?reply = "\<lparr>subject = subject (f (map_of req ''company_name'') (map_of req ''role'')
                                      (map_of req ''your_name'') (map_of req ''recipient_name'')),
                 body = body (f (map_of req ''company_name'') (map_of req ''role'')
                                (map_of req ''your_name'') (map_of req ''recipient_name'')),
                 generated_by = ''template'',
                 note_text = Some ''AI generation encountered an error. Using template instead.''\<rparr>"
  have g: "generateEmail apiKey openai req = (Inr (200, ?reply), [p])"
    using tf available m prompt by (simp add: generateEmail_def Let_def)
  have n: "subject ?reply \<noteq> [] \<and> body ?reply \<noteq> []"
    using template_nonempty [OF tf(2)] by simp
  from tf g n show ?thesis by (intro exI [of _ t] exI [of _ f] exI [of _ ?reply]) simp
qed

theorem generateEmail_call_failure_witness:
  "validateEmailGeneration email_req = Inr email_req
   \<and> isAIAvailable (Some ''sk-test'')
   \<and> failed (quota_exceeded (build_prompt (Some ''referral'') (Some ''Ann'') (Some ''SDE'')
                (Some ''Acme'') ''Hiring Manager''))
   \<and> generateEmail (Some ''sk-test'') quota_exceeded email_req =
       (Inr (200,
          \<lparr>subject = ''Referral Request: SDE at Acme'',
           body = body (referral (Some ''Acme'') (Some ''SDE'') (Some ''Ann'') None),
           generated_by = ''template'',
           note_text = Some ''AI generation encountered an error. Using template instead.''\<rparr>),
        [build_prompt (Some ''referral'') (Some ''Ann'') (Some ''SDE'') (Some ''Acme'')
           ''Hiring Manager''])
   \<and> body (referral (Some ''Acme'') (Some ''SDE'') (Some ''Ann'') None) \<noteq> []"
proof -
  let ?p = "build_prompt (Some ''referral'') (Some ''Ann'') (Some ''SDE'') (Some ''Acme'')
              ''Hiring Manager''"
  have h1: "validateEmailGeneration email_req = Inr email_req"
    by (simp add: validateEmailGeneration_def email_req_def sanitize_def failing_def field_def
        handleValidationErrors_def email_types_def trim_def is_space_def Let_def)
  have h2: "isAIAvailable (Some ''sk-test'')"
    by (simp add: isAIAvailable_iff startsWith_def)
  have h3: "?p = build_prompt (map_of email_req ''type'') (map_of email_req ''your_name'')
                         (map_of email_req ''role'') (map_of email_req ''company_name'')
                         (js_or (map_of email_req ''recipient_name'') ''Hiring Manager'')"
    by (simp add: email_req_def js_or_def)
  have h4: "failed (quota_exceeded ?p)" by (simp add: quota_exceeded_def)
  have t: "map_of email_req ''type'' = Some ''referral''" by (simp add: email_req_def)
  have f: "emailTemplates ''referral'' = Some referral" by (simp add: emailTemplates_def)
  have v: "map_of email_req ''company_name'' = Some ''Acme''"
    "map_of email_req ''role'' = Some ''SDE''" "map_of email_req ''your_name'' = Some ''Ann''"
    "map_of email_req ''recipient_name'' = None"
    by (simp_all add: email_req_def)
  have s: "subject (referral (Some ''Acme'') (Some ''SDE'') (Some ''Ann'') None)
      = ''Referral Request: SDE at Acme''"
    by (simp add: referral_def str_def)
  from generateEmail_call_failure [where openai = quota_exceeded, OF h1 h2 h3 h4]
  obtain reply where
    r: "generateEmail (Some ''sk-test'') quota_exceeded email_req = (Inr (200, reply), [?p])"
       "subject reply = ''Referral Request: SDE at Acme''"
       "body reply = body (referral (Some ''Acme'') (Some ''SDE'') (Some ''Ann'') None)"
       "generated_by reply = ''template''"
       "note_text reply = Some ''AI generation encountered an error. Using template instead.''"
       "body reply \<noteq> []"
    using t f v s by auto
  have "reply = \<lparr>subject = ''Referral Request: SDE at Acme'',
           body = body (referral (Some ''Acme'') (Some ''SDE'') (Some ''Ann'') None),
           generated_by = ''template'',
           note_text = Some ''AI generation encountered an error. Using template instead.''\<rparr>"
    using r by (cases reply) simp
  with r h1 h2 h4 show ?thesis by auto
qed

section \<open>Email: parsing the completion\<close>














text \<open>
  The format is needed. When the line after the subject line is not blank, the code
  leaves it out all the same (\<open>bodyStartIndex = i + 2\<close>), while for the specification's
  parser it is the first line of the body.
\<close>

lemma generateEmail_line_after_subject:
  "\<not> separator_follows ''Subject: Hi\<newline>Dear Bob,\<newline>I am writing to you.''
   \<and> fst (generateEmail (Some ''sk-test'') salutation_completion email_req) =
       Inr (200, \<lparr>subject = ''Hi'', body = ''I am writing to you.'', generated_by = ''ai'',
                  note_text = None\<rparr>)
   \<and> spec_parse_completion ''Application for SDE at Acme''
         ''Subject: Hi\<newline>Dear Bob,\<newline>I am writing to you.''
       = \<lparr>subject = ''Hi'', body = ''Dear Bob,\<newline>I am writing to you.''\<rparr>"
  by code_simp

end
